theory Spec2Isabelle
  imports Complex_Main
begin

section \<open>Faults shared by the three subsystems\<close>

text \<open>
  The kernel's \<^verbatim>\<open>ASSERT\<close> aborts the simulator; a function of a value-returning type
  whose control reaches the closing brace without a \<^verbatim>\<open>return\<close> hands back no defined
  value. Both are results of the model, never hidden in an unspecified HOL value.
\<close>

datatype fault =
    AssertionFailed
  | OutOfBounds
  | NoReturnValue
  | BadSector
  | NullPointer
  | Uninitialised
  | OutOfFuel
  | DivisionByZero

section \<open>Address spaces (userprog/addrspace.cc)\<close>

text \<open>
  Modelled from the spec: the exception kinds (declared in the missing
  \<^verbatim>\<open>machine/machine.h\<close>), those that the spec's error taxonomy names.
\<close>

datatype ExceptionType =
    NoException
  | PageFaultException
  | ReadOnlyException
  | BusErrorException
  | AddressErrorException
  | MemoryLimitException

text \<open>
  The machine constants are declared in \<^verbatim>\<open>machine/machine.h\<close>, which is not among the
  sources, so they are parameters. Page and frame numbers are natural numbers.
\<close>

record machine =
  PageSize :: nat
  NumPhysPages :: nat
  UserStackSize :: nat

text \<open>
  Modelled from the spec: \<^verbatim>\<open>MemorySize\<close> is declared in the missing \<^verbatim>\<open>machine.h\<close>; main memory
  is \<^verbatim>\<open>NumPhysPages\<close> frames of \<^verbatim>\<open>PageSize\<close> bytes each.
\<close>

definition MemorySize :: "machine \<Rightarrow> nat" where
  "MemorySize m = NumPhysPages m * PageSize m"

text \<open>
  Modelled from the spec: the fields of a page-table entry (declared in the missing
  \<^verbatim>\<open>machine/translate.h\<close>).
\<close>

record TranslationEntry =
  virtualPage :: nat
  physicalPage :: nat
  valid :: bool
  readOnly :: bool
  use :: bool
  dirty :: bool

record AddrSpace =
  pageTable :: "TranslationEntry list"
  numPages :: nat

text \<open>
  \<^verbatim>\<open>AddrSpace::Translate(vaddr, paddr, isReadWrite)\<close>. The result is the exception kind, the
  value stored through \<^verbatim>\<open>paddr\<close> (nothing is stored on a failure return) and the address
  space with its page table as the call leaves it. The final \<^verbatim>\<open>ASSERT\<close> is a branch, and
  so is the division by a page size of zero, which in HOL would pass unnoticed.
\<close>

definition Translate ::
  "machine \<Rightarrow> AddrSpace \<Rightarrow> nat \<Rightarrow> bool \<Rightarrow> fault + (ExceptionType \<times> nat option \<times> AddrSpace)" where
  "Translate m as vaddr isReadWrite =
     (if PageSize m = 0 then Inl DivisionByZero
      else
      let vpn = vaddr div PageSize m;
          offset = vaddr mod PageSize m
      in if vpn \<ge> numPages as then Inr (AddressErrorException, None, as)
         else
           let pte = pageTable as ! vpn
           in if isReadWrite \<and> readOnly pte then Inr (ReadOnlyException, None, as)
              else
                let pfn = physicalPage pte
                in if pfn \<ge> NumPhysPages m then Inr (BusErrorException, None, as)
                   else
                     let pte1 = pte\<lparr>use := True\<rparr>;
                         pte2 = (if isReadWrite then pte1\<lparr>dirty := True\<rparr> else pte1);
                         paddr = pfn * PageSize m + offset
                     in if paddr < MemorySize m
                        then Inr (NoException, Some paddr,
                                  as\<lparr>pageTable := (pageTable as)[vpn := pte2]\<rparr>)
                        else Inl AssertionFailed)"


subsection \<open>\<^verbatim>\<open>AddrSpace::Load\<close>\<close>

text \<open>
  Modelled from the spec: the NOFF header as \<open>Load\<close> reads it (\<^verbatim>\<open>noff.h\<close> is not among the
  sources): a magic number and the segment descriptors, each with its size (\<open>segSize\<close>
  here), virtual address and place in the file. They are 32-bit numbers, taken as
  non-negative; where the source adds them up into an \<^verbatim>\<open>unsigned int\<close> the sum is reduced
  (\<open>pagesNeeded\<close> below). \<open>readonlyData\<close> is \<open>None\<close> in a build without \<^verbatim>\<open>RDATA\<close>. The byte
  order of the file is the host's. The value of the magic number plays no part in what
  follows.
\<close>

record NoffSegment =
  virtualAddr :: nat
  inFileAddr :: nat
  segSize :: nat

record NoffHeader =
  noffMagic :: int
  code :: NoffSegment
  readonlyData :: "NoffSegment option"
  initData :: NoffSegment
  uninitData :: NoffSegment

definition NOFFMAGIC :: int where
  "NOFFMAGIC = 0xbadfad"

text \<open>The kernel's frame table: entry 1 for a free frame, 0 for a used one.\<close>

record Frames =
  FrameTable :: "int list"
  FreeFrame :: int

text \<open>
  \<^verbatim>\<open>ExceptionHandler\<close> (\<^verbatim>\<open>userprog/exception.cc\<close>) is not among the sources. Whether it
  gives control back for a given exception is a parameter of the model, \<open>resumes\<close>: when
  it does not, \<open>Load\<close> ends there with \<open>Handled\<close>; when it does, \<open>Load\<close> goes on with the
  statement after the call, as the source does.
\<close>

datatype LoadResult = Returned bool | Handled ExceptionType

text \<open>
  Modelled from the spec: the entries of \<^verbatim>\<open>new TranslationEntry[numPages]\<close> before the loop
  fills them (the class is declared in the missing \<^verbatim>\<open>translate.h\<close>).
\<close>

definition NewTranslationEntry :: TranslationEntry where
  "NewTranslationEntry =
     \<lparr>virtualPage = 0, physicalPage = 0, valid = False, readOnly = False, use = False,
      dirty = False\<rparr>"

text \<open>
  The frame loop: \<^verbatim>\<open>for (i = 0; i < NumPhysPages; i++)\<close>, left early once \<open>idx\<close> has
  reached \<open>numPages\<close>. \<open>idx\<close> starts at 0 and the loop is left when it equals \<open>np\<close>, so
  every write to the page table is inside its \<open>np\<close> entries.
\<close>

function LoadFrames ::
  "machine \<Rightarrow> nat \<Rightarrow> nat \<Rightarrow> nat \<Rightarrow> TranslationEntry list \<Rightarrow> Frames \<Rightarrow>
   fault + (TranslationEntry list \<times> Frames)" where
  "LoadFrames m np i idx pt fr =
     (if i < NumPhysPages m
      then
        if idx = np then Inr (pt, fr)
        else if i \<ge> length (FrameTable fr) then Inl OutOfBounds
        else if FrameTable fr ! i = 1
        then LoadFrames m np (Suc i) (Suc idx)
               (pt[idx := \<lparr>virtualPage = idx, physicalPage = i, valid = True, readOnly = False,
                            use = False, dirty = False\<rparr>])
               (fr\<lparr>FrameTable := (FrameTable fr)[i := 0], FreeFrame := FreeFrame fr - 1\<rparr>)
        else LoadFrames m np (Suc i) idx pt fr
      else Inr (pt, fr))"
  by pat_completeness auto
termination
  by (relation "measure (\<lambda>(m, np, i, idx, pt, fr). NumPhysPages m - i)") auto

declare LoadFrames.simps [simp del]

text \<open>
  The copy loop of one segment, a page at a time. What is copied into main memory is not
  part of the model; the page table and the exceptions are. \<open>Some e\<close> in the result says
  that the handler was entered for \<open>e\<close> and kept control.
\<close>

function LoadSegment ::
  "machine \<Rightarrow> (ExceptionType \<Rightarrow> bool) \<Rightarrow> bool \<Rightarrow> AddrSpace \<Rightarrow> nat \<Rightarrow> nat \<Rightarrow>
   fault + (ExceptionType option \<times> AddrSpace)" where
  "LoadSegment m resumes ro as remainSize insertBase =
     (if remainSize > 0
      then
        if PageSize m = 0 then Inl DivisionByZero
        else
          let insertSize = min remainSize (PageSize m)
          in case Translate m as insertBase False of
               Inl e \<Rightarrow> Inl e
             | Inr (exception, paddr, as1) \<Rightarrow>
                 if exception \<noteq> NoException \<and> \<not> resumes exception
                 then Inr (Some exception, as1)
                 else
                   let vpn = insertBase div PageSize m
                   in if vpn \<ge> length (pageTable as1) then Inl OutOfBounds
                      else LoadSegment m resumes ro
                             (as1\<lparr>pageTable := (pageTable as1)
                                    [vpn := (pageTable as1 ! vpn)\<lparr>readOnly := ro\<rparr>]\<rparr>)
                             (remainSize - insertSize) (insertBase + insertSize)
      else Inr (None, as))"
  by pat_completeness auto
termination
  by (relation "measure (\<lambda>(m, resumes, ro, as, remainSize, insertBase). remainSize)") auto

declare LoadSegment.simps [simp del]

text \<open>
  The first Translate of the initialised-data block, made on the whole segment before its
  page loop.
\<close>

definition LoadWholeSegment ::
  "machine \<Rightarrow> (ExceptionType \<Rightarrow> bool) \<Rightarrow> AddrSpace \<Rightarrow> nat \<Rightarrow>
   fault + (ExceptionType option \<times> AddrSpace)" where
  "LoadWholeSegment m resumes as vaddr =
     (case Translate m as vaddr False of
        Inl e \<Rightarrow> Inl e
      | Inr (exception, paddr, as1) \<Rightarrow>
          if exception \<noteq> NoException \<and> \<not> resumes exception
          then Inr (Some exception, as1)
          else Inr (None, as1))"

definition LoadReadonlyData ::
  "machine \<Rightarrow> (ExceptionType \<Rightarrow> bool) \<Rightarrow> NoffHeader \<Rightarrow> AddrSpace \<Rightarrow>
   fault + (ExceptionType option \<times> AddrSpace)" where
  "LoadReadonlyData m resumes noffH as =
     (case readonlyData noffH of
        None \<Rightarrow> Inr (None, as)
      | Some seg \<Rightarrow>
          if segSize seg > 0 then LoadSegment m resumes True as (segSize seg) (virtualAddr seg)
          else Inr (None, as))"

definition LoadInitData ::
  "machine \<Rightarrow> (ExceptionType \<Rightarrow> bool) \<Rightarrow> NoffHeader \<Rightarrow> AddrSpace \<Rightarrow>
   fault + (ExceptionType option \<times> AddrSpace)" where
  "LoadInitData m resumes noffH as =
     (if segSize (initData noffH) > 0
      then
        case LoadWholeSegment m resumes as (virtualAddr (initData noffH)) of
          Inl e \<Rightarrow> Inl e
        | Inr (Some e, as1) \<Rightarrow> Inr (Some e, as1)
        | Inr (None, as1) \<Rightarrow>
            LoadSegment m resumes False as1 (segSize (initData noffH)) (virtualAddr (initData noffH))
      else Inr (None, as))"

definition LoadCode ::
  "machine \<Rightarrow> (ExceptionType \<Rightarrow> bool) \<Rightarrow> NoffHeader \<Rightarrow> AddrSpace \<Rightarrow>
   fault + (ExceptionType option \<times> AddrSpace)" where
  "LoadCode m resumes noffH as =
     (if segSize (code noffH) > 0
      then LoadSegment m resumes True as (segSize (code noffH)) (virtualAddr (code noffH))
      else Inr (None, as))"

text \<open>
  The value an \<^verbatim>\<open>unsigned int\<close> of 32 bits holds after an assignment: the number modulo
  \<open>2^32\<close> (reduced on \<open>int\<close>).
\<close>

definition unsigned_int :: "nat \<Rightarrow> nat" where
  "unsigned_int n = nat (int n mod 4294967296)"

text \<open>
  \<^verbatim>\<open>size = noffH.code.size + ... + UserStackSize; numPages = divRoundUp(size, PageSize)\<close>,
  with \<^verbatim>\<open>unsigned int size\<close>: the sum of the segment sizes and the stack wraps around
  before it is divided into pages.
\<close>

definition pagesNeeded :: "machine \<Rightarrow> NoffHeader \<Rightarrow> nat" where
  "pagesNeeded m noffH =
     (let size = unsigned_int
                   (segSize (code noffH)
                    + (case readonlyData noffH of None \<Rightarrow> 0 | Some seg \<Rightarrow> segSize seg)
                    + segSize (initData noffH) + segSize (uninitData noffH) + UserStackSize m)
      in size div PageSize m + (if size mod PageSize m > 0 then 1 else 0))"

text \<open>
  \<open>Load\<close>. \<open>executable\<close> is what \<^verbatim>\<open>Open\<close> and the read of the header deliver: \<open>None\<close> when
  the file cannot be opened. After the call of the handler for \<open>MemoryLimitException\<close>
  the source has no \<^verbatim>\<open>return\<close>: when the handler gives control back, the load goes on.
  \<open>numPages\<close> and \<open>FreeFrame\<close> are compared as the numbers they stand for; \<open>FreeFrame\<close>
  is the kernel's count of free frames (\<^verbatim>\<open>kernel.h\<close> is not among the sources).
\<close>

definition Load ::
  "machine \<Rightarrow> (ExceptionType \<Rightarrow> bool) \<Rightarrow> NoffHeader option \<Rightarrow> AddrSpace \<Rightarrow> Frames \<Rightarrow>
   fault + (LoadResult \<times> AddrSpace \<times> Frames)" where
  "Load m resumes executable as fr =
     (case executable of
        None \<Rightarrow> Inr (Returned False, as, fr)
      | Some noffH \<Rightarrow>
          if noffMagic noffH \<noteq> NOFFMAGIC then Inl AssertionFailed
          else if PageSize m = 0 then Inl DivisionByZero
          else
            let as1 = as\<lparr>numPages := pagesNeeded m noffH\<rparr>
            in if int (numPages as1) > FreeFrame fr \<and> \<not> resumes MemoryLimitException
               then Inr (Handled MemoryLimitException, as1, fr)
               else
                 case LoadFrames m (numPages as1) 0 0
                        (replicate (numPages as1) NewTranslationEntry) fr of
                   Inl e \<Rightarrow> Inl e
                 | Inr (pt, fr1) \<Rightarrow>
                     (case LoadCode m resumes noffH (as1\<lparr>pageTable := pt\<rparr>) of
                        Inl e \<Rightarrow> Inl e
                      | Inr (Some e, as2) \<Rightarrow> Inr (Handled e, as2, fr1)
                      | Inr (None, as2) \<Rightarrow>
                          (case LoadInitData m resumes noffH as2 of
                             Inl e \<Rightarrow> Inl e
                           | Inr (Some e, as3) \<Rightarrow> Inr (Handled e, as3, fr1)
                           | Inr (None, as3) \<Rightarrow>
                               (case LoadReadonlyData m resumes noffH as3 of
                                  Inl e \<Rightarrow> Inl e
                                | Inr (Some e, as4) \<Rightarrow> Inr (Handled e, as4, fr1)
                                | Inr (None, as4) \<Rightarrow> Inr (Returned True, as4, fr1)))))"

subsection \<open>Well-formed states\<close>

text \<open>The number of frames the table marks free, which \<open>FreeFrame\<close> is meant to equal.\<close>

definition freeCount :: "int list \<Rightarrow> nat" where
  "freeCount ft = length (filter (\<lambda>x. x = 1) ft)"

text \<open>
  Every page of the address space is mapped, \<open>before\<close> and \<open>after\<close> being the frame table
  as the load found it and as it left it: the page table has \<open>numPages\<close> entries; each
  entry is valid and names a frame of the machine that was free before and is used after;
  entry \<open>i\<close> is that of virtual page \<open>i\<close>; and the frames grow with the page number, so no
  two pages share a frame.
\<close>

definition mapped :: "machine \<Rightarrow> int list \<Rightarrow> int list \<Rightarrow> AddrSpace \<Rightarrow> bool" where
  "mapped m before after as \<longleftrightarrow>
     length (pageTable as) = numPages as
     \<and> list_all (\<lambda>e. valid e \<and> physicalPage e < NumPhysPages m
                     \<and> before ! physicalPage e = 1 \<and> after ! physicalPage e = 0)
          (pageTable as)
     \<and> map virtualPage (pageTable as) = [0..<numPages as]
     \<and> sorted_wrt (<) (map physicalPage (pageTable as))"

text \<open>A segment that is not empty lies inside the \<open>np\<close> pages of the address space.\<close>

definition segmentFits :: "machine \<Rightarrow> nat \<Rightarrow> NoffSegment \<Rightarrow> bool" where
  "segmentFits m np seg \<longleftrightarrow> segSize seg = 0 \<or> virtualAddr seg + segSize seg \<le> np * PageSize m"
section \<open>The multi-level feedback scheduler (threads/scheduler.cc)\<close>

text \<open>
  Modelled from the spec: the status and the scheduling fields of a thread (declared in
  the missing \<^verbatim>\<open>threads/thread.h\<close>). Burst times are real numbers; only their order and the
  value zero matter below.
\<close>

datatype ThreadStatus = JUST_CREATED | RUNNING | READY | BLOCKED | ZOMBIE

record Thread =
  priority :: int
  remain_burst :: real
  approx_burst :: real
  true_burst :: real
  insert_ready_time :: int
  total_ready_time :: int
  status :: ThreadStatus

text \<open>
  The ready queues hold \<^verbatim>\<open>Thread *\<close>: a queue is a list of addresses and the thread
  objects live in a store, so that an update of a thread is seen through every queue that
  holds its address.

  Modelled from the spec: \<^verbatim>\<open>List\<close> and its iterator (\<^verbatim>\<open>lib/list.cc\<close> is not among the
  sources). \<^verbatim>\<open>IsEmpty\<close> is the test for the empty list, \<^verbatim>\<open>Front\<close> and \<^verbatim>\<open>RemoveFront\<close>
  take the head, \<^verbatim>\<open>Append\<close> adds at the end, \<^verbatim>\<open>Remove\<close> takes out the first occurrence,
  and an iterator visits the items from the front.
\<close>

type_synonym thread_ptr = nat

record Kernel =
  L1 :: "thread_ptr list"
  L2 :: "thread_ptr list"
  L3 :: "thread_ptr list"
  threads :: "thread_ptr \<Rightarrow> Thread"
  currentThread :: thread_ptr
  totalTicks :: int
  interruptsOff :: bool

definition comp_L1 :: "Thread \<Rightarrow> Thread \<Rightarrow> int" where
  "comp_L1 x y =
     (if remain_burst x = 0 \<and> remain_burst y = 0
      then (if priority x > priority y then -1
            else if priority x = priority y then 0
            else 1)
      else (if remain_burst x > remain_burst y then 1
            else if remain_burst x = remain_burst y then 0
            else -1))"

definition comp_L2 :: "Thread \<Rightarrow> Thread \<Rightarrow> int" where
  "comp_L2 x y =
     (if priority x > priority y then -1
      else if priority x = priority y then 0
      else 1)"

text \<open>
  Modelled from the spec: \<^verbatim>\<open>SortedList::Insert\<close> (lib/list.cc is not among the sources).
  The new item goes in front of the first resident that the comparator ranks strictly
  after it, so ties keep their insertion order.
\<close>

fun Insert :: "(Thread \<Rightarrow> Thread \<Rightarrow> int) \<Rightarrow> (thread_ptr \<Rightarrow> Thread) \<Rightarrow> thread_ptr \<Rightarrow>
    thread_ptr list \<Rightarrow> thread_ptr list" where
  "Insert cmp h t [] = [t]"
| "Insert cmp h t (x # xs) =
     (if cmp (h t) (h x) < 0 then t # x # xs else x # Insert cmp h t xs)"

text \<open>
  Modelled from the spec: \<^verbatim>\<open>Thread::WhichQueue\<close> (threads/thread.cc is not among the
  sources): priority 100 and above is band 1, 50 to 99 band 2, below 50 band 3.
\<close>

definition WhichQueue :: "Thread \<Rightarrow> int" where
  "WhichQueue t = (if priority t \<ge> 100 then 1 else if priority t \<ge> 50 then 2 else 3)"

text \<open>
  Modelled from the spec: \<^verbatim>\<open>Thread::StartReady\<close> records the tick at which the thread
  entered a ready queue.
\<close>

definition StartReady :: "int \<Rightarrow> Thread \<Rightarrow> Thread" where
  "StartReady now t = t\<lparr>insert_ready_time := now\<rparr>"

definition PutToReady :: "thread_ptr \<Rightarrow> Kernel \<Rightarrow> fault + Kernel" where
  "PutToReady thread k =
     (if \<not> interruptsOff k then Inl AssertionFailed
      else
        let t0 = threads k thread;
            t1 = (if status t0 = BLOCKED
                  then t0\<lparr>remain_burst := approx_burst t0, true_burst := 0\<rparr>
                  else t0);
            t2 = StartReady (totalTicks k) (t1\<lparr>status := READY\<rparr>);
            k1 = k\<lparr>threads := (threads k)(thread := t2)\<rparr>;
            queue = WhichQueue t2;
            k2 = (if queue = 1 then k1\<lparr>L1 := Insert comp_L1 (threads k1) thread (L1 k1)\<rparr> else k1);
            k3 = (if queue = 2 then k2\<lparr>L2 := Insert comp_L2 (threads k2) thread (L2 k2)\<rparr> else k2);
            k4 = (if queue = 3 then k3\<lparr>L3 := L3 k3 @ [thread]\<rparr> else k3)
        in Inr k4)"

text \<open>\<^verbatim>\<open>Scheduler::ScheduleNext\<close>: \<^verbatim>\<open>NULL\<close> is \<open>None\<close>.\<close>

definition ScheduleNext :: "Kernel \<Rightarrow> fault + (thread_ptr option \<times> Kernel)" where
  "ScheduleNext k =
     (if \<not> interruptsOff k then Inl AssertionFailed
      else if L1 k \<noteq> [] then Inr (Some (hd (L1 k)), k\<lparr>L1 := tl (L1 k)\<rparr>)
      else if L2 k \<noteq> [] then Inr (Some (hd (L2 k)), k\<lparr>L2 := tl (L2 k)\<rparr>)
      else if L3 k \<noteq> [] then Inr (Some (hd (L3 k)), k\<lparr>L3 := tl (L3 k)\<rparr>)
      else Inr (None, k))"

text \<open>
  \<^verbatim>\<open>Scheduler::CheckPreempt\<close>. The band-1 branch has no \<^verbatim>\<open>return\<close> for an empty L1:
  control leaves the function at its closing brace.
\<close>

definition CheckPreempt :: "Kernel \<Rightarrow> fault + bool" where
  "CheckPreempt k =
     (let thread = threads k (currentThread k)
      in if WhichQueue thread = 1
         then (if L1 k \<noteq> []
               then (if remain_burst (threads k (hd (L1 k))) < remain_burst thread
                     then Inr True else Inr False)
               else Inl NoReturnValue)
         else if WhichQueue thread = 2
         then (if L1 k \<noteq> [] then Inr True else Inr False)
         else if WhichQueue thread = 3
         then (if L3 k = [] then Inr False else Inr True)
         else Inl NoReturnValue)"

text \<open>
  \<^verbatim>\<open>Scheduler::Aging\<close>: three loops, one per queue, each walking the queue with a list
  iterator. A promoted thread is inserted into the higher queue and removed from the one
  being walked after the iterator has moved past it.
\<close>

definition AgingL1_item :: "thread_ptr \<Rightarrow> Kernel \<Rightarrow> Kernel" where
  "AgingL1_item t k =
     (let th = threads k t;
          th1 = th\<lparr>total_ready_time := totalTicks k - insert_ready_time th\<rparr>
      in if total_ready_time th1 \<ge> 1500
         then k\<lparr>threads := (threads k)(t := th1
                  \<lparr>priority := (if priority th1 + 10 > 149 then 149 else priority th1 + 10),
                   total_ready_time := total_ready_time th1 - 1500,
                   insert_ready_time := insert_ready_time th1 + 1500\<rparr>)\<rparr>
         else k\<lparr>threads := (threads k)(t := th1)\<rparr>)"

definition AgingL2_item :: "thread_ptr \<Rightarrow> Kernel \<Rightarrow> Kernel" where
  "AgingL2_item t k =
     (let th = threads k t;
          th1 = th\<lparr>total_ready_time := totalTicks k - insert_ready_time th\<rparr>
      in if total_ready_time th1 \<ge> 1500
         then
           let th2 = th1\<lparr>priority := priority th1 + 10,
                        total_ready_time := total_ready_time th1 - 1500,
                        insert_ready_time := insert_ready_time th1 + 1500\<rparr>;
               k1 = k\<lparr>threads := (threads k)(t := th2)\<rparr>
           in if priority th2 \<ge> 100
              then k1\<lparr>L1 := Insert comp_L1 (threads k1) t (L1 k1), L2 := remove1 t (L2 k1)\<rparr>
              else k1
         else k\<lparr>threads := (threads k)(t := th1)\<rparr>)"

definition AgingL3_item :: "thread_ptr \<Rightarrow> Kernel \<Rightarrow> Kernel" where
  "AgingL3_item t k =
     (let th = threads k t;
          th1 = th\<lparr>total_ready_time := totalTicks k - insert_ready_time th\<rparr>
      in if total_ready_time th1 \<ge> 1500
         then
           let th2 = th1\<lparr>priority := priority th1 + 10,
                        total_ready_time := total_ready_time th1 - 1500,
                        insert_ready_time := insert_ready_time th1 + 1500\<rparr>;
               k1 = k\<lparr>threads := (threads k)(t := th2)\<rparr>
           in if priority th2 \<ge> 50
              then k1\<lparr>L2 := Insert comp_L2 (threads k1) t (L2 k1), L3 := remove1 t (L3 k1)\<rparr>
              else k1
         else k\<lparr>threads := (threads k)(t := th1)\<rparr>)"

fun AgingL1_loop :: "thread_ptr list \<Rightarrow> Kernel \<Rightarrow> Kernel" where
  "AgingL1_loop [] k = k"
| "AgingL1_loop (t # ts) k = AgingL1_loop ts (AgingL1_item t k)"

fun AgingL2_loop :: "thread_ptr list \<Rightarrow> Kernel \<Rightarrow> Kernel" where
  "AgingL2_loop [] k = k"
| "AgingL2_loop (t # ts) k = AgingL2_loop ts (AgingL2_item t k)"

fun AgingL3_loop :: "thread_ptr list \<Rightarrow> Kernel \<Rightarrow> Kernel" where
  "AgingL3_loop [] k = k"
| "AgingL3_loop (t # ts) k = AgingL3_loop ts (AgingL3_item t k)"

definition Aging :: "Kernel \<Rightarrow> Kernel" where
  "Aging k =
     (let k1 = AgingL1_loop (L1 k) k;
          k2 = AgingL2_loop (L2 k1) k1;
          k3 = AgingL3_loop (L3 k2) k2
      in k3)"

subsection \<open>Repeated calls and the per-thread effect of one aging pass\<close>

fun ScheduleNext_times :: "nat \<Rightarrow> Kernel \<Rightarrow> fault + (thread_ptr option list \<times> Kernel)" where
  "ScheduleNext_times 0 k = Inr ([], k)"
| "ScheduleNext_times (Suc n) k =
     (case ScheduleNext k of
        Inl e \<Rightarrow> Inl e
      | Inr (r, k1) \<Rightarrow>
          (case ScheduleNext_times n k1 of
             Inl e \<Rightarrow> Inl e
           | Inr (rs, k2) \<Rightarrow> Inr (r # rs, k2)))"

fun PutToReady_all :: "thread_ptr list \<Rightarrow> Kernel \<Rightarrow> fault + Kernel" where
  "PutToReady_all [] k = Inr k"
| "PutToReady_all (t # ts) k =
     (case PutToReady t k of Inl e \<Rightarrow> Inl e | Inr k1 \<Rightarrow> PutToReady_all ts k1)"

definition aged_saturating :: "int \<Rightarrow> Thread \<Rightarrow> Thread" where
  "aged_saturating now th =
     (if 1500 \<le> now - insert_ready_time th
      then th\<lparr>priority := (if priority th + 10 > 149 then 149 else priority th + 10),
              total_ready_time := now - insert_ready_time th - 1500,
              insert_ready_time := insert_ready_time th + 1500\<rparr>
      else th\<lparr>total_ready_time := now - insert_ready_time th\<rparr>)"

definition aged_plain :: "int \<Rightarrow> Thread \<Rightarrow> Thread" where
  "aged_plain now th =
     (if 1500 \<le> now - insert_ready_time th
      then th\<lparr>priority := priority th + 10,
              total_ready_time := now - insert_ready_time th - 1500,
              insert_ready_time := insert_ready_time th + 1500\<rparr>
      else th\<lparr>total_ready_time := now - insert_ready_time th\<rparr>)"

definition promoted :: "int \<Rightarrow> int \<Rightarrow> Thread \<Rightarrow> bool" where
  "promoted bound now th \<longleftrightarrow> 1500 \<le> now - insert_ready_time th \<and> bound \<le> priority th + 10"

section \<open>The file system (filesys/filehdr.cc, directory.cc, filesys.cc)\<close>

text \<open>
  The disk and header constants are declared in \<^verbatim>\<open>disk.h\<close>, \<^verbatim>\<open>filehdr.h\<close> and
  \<^verbatim>\<open>directory.h\<close>, none of which is among the sources at hand, so they are parameters;
  \<^verbatim>\<open>NumDirEntries\<close> is a parameter too, so that small disks can be run (the source fixes it
  at 64). \<open>DirectoryEntrySize\<close> stands for \<^verbatim>\<open>sizeof(DirectoryEntry)\<close>.
\<close>

record geometry =
  SectorSize :: nat
  NumDirect :: nat
  NumSectors :: nat
  FileNameMaxLen :: nat
  NumDirEntries :: nat
  DirectoryEntrySize :: nat

text \<open>
  Modelled from the spec: the capacities of the indirection levels (declared in the
  missing \<^verbatim>\<open>filehdr.h\<close>).
\<close>

definition bytes_in_level1 :: "geometry \<Rightarrow> int" where
  "bytes_in_level1 g = int (NumDirect g) * int (SectorSize g)"

definition bytes_in_level2 :: "geometry \<Rightarrow> int" where
  "bytes_in_level2 g = int (NumDirect g) * bytes_in_level1 g"

definition bytes_in_level3 :: "geometry \<Rightarrow> int" where
  "bytes_in_level3 g = int (NumDirect g) * bytes_in_level2 g"

definition FreeMapSector :: int where
  "FreeMapSector = 0"

definition DirectorySector :: int where
  "DirectorySector = 1"

definition FreeMapFileSize :: "geometry \<Rightarrow> int" where
  "FreeMapFileSize g = int (NumSectors g) div 8"

definition DirectoryFileSize :: "geometry \<Rightarrow> int" where
  "DirectoryFileSize g = int (DirectoryEntrySize g) * int (NumDirEntries g)"

text \<open>
  Modelled from the spec: \<^verbatim>\<open>divRoundUp\<close> and \<^verbatim>\<open>divRoundDown\<close> are macros of the missing
  \<^verbatim>\<open>lib/utility.h\<close>; the spec writes them as the ceiling and the floor of a quotient. They
  are built on C's division, which truncates towards zero. A divisor of zero is checked
  where the functions below divide.
\<close>

definition c_div :: "int \<Rightarrow> int \<Rightarrow> int" where
  "c_div a b = sgn a * sgn b * (\<bar>a\<bar> div \<bar>b\<bar>)"

definition c_mod :: "int \<Rightarrow> int \<Rightarrow> int" where
  "c_mod a b = a - b * c_div a b"

definition divRoundDown :: "int \<Rightarrow> int \<Rightarrow> int" where
  "divRoundDown n s = c_div n s"

definition divRoundUp :: "int \<Rightarrow> int \<Rightarrow> int" where
  "divRoundUp n s = c_div n s + (if c_mod n s > 0 then 1 else 0)"

subsection \<open>The free map\<close>

text \<open>
  Modelled from the spec: the bitmap (\<^verbatim>\<open>lib/bitmap.cc\<close>, \<^verbatim>\<open>filesys/pbitmap.cc\<close> are not
  among the sources). One bit per sector, \<open>True\<close> for a sector in use. \<open>FindAndSet\<close> takes
  the lowest clear bit and returns \<open>-1\<close> when there is none; \<open>Test\<close>, \<open>Clear\<close> and \<open>Mark\<close>
  of a bit outside the map are faults.
\<close>

type_synonym bitmap = "bool list"

definition NumClear :: "bitmap \<Rightarrow> int" where
  "NumClear bm = int (length (filter (\<lambda>b. \<not> b) bm))"

definition NumSet :: "bitmap \<Rightarrow> int" where
  "NumSet bm = int (length (filter (\<lambda>b. b) bm))"

fun first_clear :: "bitmap \<Rightarrow> nat \<Rightarrow> nat option" where
  "first_clear [] i = None"
| "first_clear (b # bs) i = (if b then first_clear bs (Suc i) else Some i)"

definition FindAndSet :: "bitmap \<Rightarrow> int \<times> bitmap" where
  "FindAndSet bm =
     (case first_clear bm 0 of
        None \<Rightarrow> (-1, bm)
      | Some i \<Rightarrow> (int i, bm[i := True]))"

definition Test :: "bitmap \<Rightarrow> int \<Rightarrow> fault + bool" where
  "Test bm which =
     (if 0 \<le> which \<and> which < int (length bm) then Inr (bm ! nat which) else Inl OutOfBounds)"

definition Clear :: "bitmap \<Rightarrow> int \<Rightarrow> fault + bitmap" where
  "Clear bm which =
     (if 0 \<le> which \<and> which < int (length bm) then Inr (bm[nat which := False])
      else Inl OutOfBounds)"

definition Mark :: "bitmap \<Rightarrow> int \<Rightarrow> fault + bitmap" where
  "Mark bm which =
     (if 0 \<le> which \<and> which < int (length bm) then Inr (bm[nat which := True])
      else Inl OutOfBounds)"

subsection \<open>File headers and the disk\<close>

text \<open>
  Modelled from the spec: the fields of a file header and of a directory entry (declared
  in the missing \<^verbatim>\<open>filehdr.h\<close> and \<^verbatim>\<open>directory.h\<close>).
\<close>

record FileHeader =
  numBytes :: int
  numSectors :: int
  dataSectors :: "int list"

record DirectoryEntry =
  inUse :: bool
  isdir :: bool
  name :: string
  sector :: int

text \<open>
  Modelled from the spec: the synchronous disk and \<^verbatim>\<open>OpenFile\<close> (\<^verbatim>\<open>synchdisk.cc\<close>,
  \<^verbatim>\<open>disk.cc\<close>, \<^verbatim>\<open>openfile.cc\<close> are not among the sources). The disk is seen through the
  three kinds of object the file system keeps on it: the file header stored in a sector,
  the entry table of a directory file (found through the sector of that file's header),
  and the free map kept in the file of sector 0. A sector that is outside the disk, or
  that was never written as a header, cannot be fetched as one.
\<close>

record FileSys =
  sectorHdr :: "int \<Rightarrow> FileHeader option"
  dirTable :: "int \<Rightarrow> DirectoryEntry list option"
  freeMapFile :: bitmap

text \<open>
  Modelled from the spec: the constructor of \<^verbatim>\<open>FileHeader\<close> is not among the sources; a
  fresh header holds no bytes and \<open>-1\<close> in every slot.
\<close>

definition NewFileHeader :: "geometry \<Rightarrow> FileHeader" where
  "NewFileHeader g =
     \<lparr>numBytes = -1, numSectors = -1, dataSectors = replicate (NumDirect g) (-1)\<rparr>"

definition FetchFrom :: "FileSys \<Rightarrow> int \<Rightarrow> fault + FileHeader" where
  "FetchFrom fs sec = (case sectorHdr fs sec of None \<Rightarrow> Inl BadSector | Some h \<Rightarrow> Inr h)"

definition WriteBack :: "FileHeader \<Rightarrow> int \<Rightarrow> FileSys \<Rightarrow> FileSys" where
  "WriteBack h sec fs = fs\<lparr>sectorHdr := (sectorHdr fs)(sec \<mapsto> h)\<rparr>"

text \<open>\<^verbatim>\<open>dataSectors[idx]\<close>, read and written, with the array bound made explicit.\<close>

definition slot :: "FileHeader \<Rightarrow> int \<Rightarrow> fault + int" where
  "slot h idx =
     (if 0 \<le> idx \<and> idx < int (length (dataSectors h)) then Inr (dataSectors h ! nat idx)
      else Inl OutOfBounds)"

subsection \<open>\<^verbatim>\<open>FileHeader::Allocate\<close>\<close>

text \<open>
  The loop of one indirect branch: \<open>lvl\<close> is the capacity of a child, \<open>child\<close> the
  recursive call on a fresh header. The result of the child's \<open>Allocate\<close> is not looked
  at by the source, and neither is it here.
\<close>

function AllocateChildren ::
  "(bitmap \<Rightarrow> int \<Rightarrow> FileSys \<Rightarrow> fault + (bool \<times> FileHeader \<times> bitmap \<times> FileSys)) \<Rightarrow>
   int \<Rightarrow> FileHeader \<Rightarrow> bitmap \<Rightarrow> int \<Rightarrow> nat \<Rightarrow> FileSys \<Rightarrow>
   fault + (FileHeader \<times> bitmap \<times> FileSys)" where
  "AllocateChildren child lvl h freeMap fileSize idx fs =
     (if fileSize > 0
      then
        if idx \<ge> length (dataSectors h) then Inl OutOfBounds
        else
          let (s, freeMap1) = FindAndSet freeMap;
              h1 = h\<lparr>dataSectors := (dataSectors h)[idx := s]\<rparr>
          in if s < 0 then Inl AssertionFailed
             else
               case child freeMap1 (if fileSize \<ge> lvl then lvl else fileSize) fs of
                 Inl e \<Rightarrow> Inl e
               | Inr (ok, next_level, freeMap2, fs2) \<Rightarrow>
                   AllocateChildren child lvl h1 freeMap2 (fileSize - lvl) (Suc idx)
                     (WriteBack next_level s fs2)
      else Inr (h, freeMap, fs))"
  by pat_completeness auto
termination
  by (relation "measure (\<lambda>(child, lvl, h, freeMap, fileSize, idx, fs). length (dataSectors h) - idx)")
     auto

declare AllocateChildren.simps [simp del]

text \<open>The loop of the leaf branch: \<^verbatim>\<open>for (i = 0; i < numSectors; i++)\<close>.\<close>

function AllocateData :: "FileHeader \<Rightarrow> bitmap \<Rightarrow> nat \<Rightarrow> fault + (FileHeader \<times> bitmap)" where
  "AllocateData h freeMap i =
     (if int i < numSectors h
      then
        if i \<ge> length (dataSectors h) then Inl OutOfBounds
        else
          let (s, freeMap1) = FindAndSet freeMap
          in if s < 0 then Inl AssertionFailed
             else AllocateData (h\<lparr>dataSectors := (dataSectors h)[i := s]\<rparr>) freeMap1 (Suc i)
      else Inr (h, freeMap))"
  by pat_completeness auto
termination
  by (relation "measure (\<lambda>(h, freeMap, i). length (dataSectors h) - i)") auto

declare AllocateData.simps [simp del]

function Allocate ::
  "geometry \<Rightarrow> FileHeader \<Rightarrow> bitmap \<Rightarrow> int \<Rightarrow> FileSys \<Rightarrow>
   fault + (bool \<times> FileHeader \<times> bitmap \<times> FileSys)" where
  "Allocate g this freeMap fileSize fs =
     (let h = this\<lparr>numBytes := fileSize, numSectors := divRoundUp fileSize (int (SectorSize g))\<rparr>
      in if SectorSize g = 0 then Inl DivisionByZero
         else if NumClear freeMap < numSectors h then Inr (False, h, freeMap, fs)
         else if fileSize > bytes_in_level3 g
         then (case AllocateChildren (\<lambda>fm sz d. Allocate g (NewFileHeader g) fm
                        (if sz \<le> bytes_in_level3 g then sz else bytes_in_level3 g) d)
                      (bytes_in_level3 g) h freeMap fileSize 0 fs of
                 Inl e \<Rightarrow> Inl e
               | Inr (h1, freeMap1, fs1) \<Rightarrow> Inr (True, h1, freeMap1, fs1))
         else if fileSize > bytes_in_level2 g
         then (case AllocateChildren (\<lambda>fm sz d. Allocate g (NewFileHeader g) fm
                        (if sz \<le> bytes_in_level2 g then sz else bytes_in_level2 g) d)
                      (bytes_in_level2 g) h freeMap fileSize 0 fs of
                 Inl e \<Rightarrow> Inl e
               | Inr (h1, freeMap1, fs1) \<Rightarrow> Inr (True, h1, freeMap1, fs1))
         else if fileSize > bytes_in_level1 g
         then (case AllocateChildren (\<lambda>fm sz d. Allocate g (NewFileHeader g) fm
                        (if sz \<le> bytes_in_level1 g then sz else bytes_in_level1 g) d)
                      (bytes_in_level1 g) h freeMap fileSize 0 fs of
                 Inl e \<Rightarrow> Inl e
               | Inr (h1, freeMap1, fs1) \<Rightarrow> Inr (True, h1, freeMap1, fs1))
         else (case AllocateData h freeMap 0 of
                 Inl e \<Rightarrow> Inl e
               | Inr (h1, freeMap1) \<Rightarrow> Inr (True, h1, freeMap1, fs)))"
  by pat_completeness auto
termination
proof (relation "measure (\<lambda>(g, this, freeMap, fileSize, fs). nat fileSize)")
  have nonneg: "0 \<le> bytes_in_level1 g \<and> 0 \<le> bytes_in_level2 g \<and> 0 \<le> bytes_in_level3 g" for g
    by (simp add: bytes_in_level1_def bytes_in_level2_def bytes_in_level3_def)
  fix g :: geometry and this :: FileHeader and freeMap :: bitmap and fileSize :: int
    and fs d :: FileSys and fm :: bitmap and sz :: int and h :: FileHeader
  show "bytes_in_level3 g < fileSize \<Longrightarrow>
      ((g, NewFileHeader g, fm, if sz \<le> bytes_in_level3 g then sz else bytes_in_level3 g, d),
       g, this, freeMap, fileSize, fs)
      \<in> measure (\<lambda>(g, this, freeMap, fileSize, fs). nat fileSize)"
    using nonneg [of g] by auto
  show "bytes_in_level2 g < fileSize \<Longrightarrow>
      ((g, NewFileHeader g, fm, if sz \<le> bytes_in_level2 g then sz else bytes_in_level2 g, d),
       g, this, freeMap, fileSize, fs)
      \<in> measure (\<lambda>(g, this, freeMap, fileSize, fs). nat fileSize)"
    using nonneg [of g] by auto
  show "bytes_in_level1 g < fileSize \<Longrightarrow>
      ((g, NewFileHeader g, fm, if sz \<le> bytes_in_level1 g then sz else bytes_in_level1 g, d),
       g, this, freeMap, fileSize, fs)
      \<in> measure (\<lambda>(g, this, freeMap, fileSize, fs). nat fileSize)"
    using nonneg [of g] by auto
qed simp

declare Allocate.simps [simp del]

subsection \<open>\<^verbatim>\<open>FileHeader::Deallocate\<close>, \<^verbatim>\<open>ByteToSector\<close> and \<^verbatim>\<open>CountHeader\<close>\<close>

text \<open>
  These three follow the headers that are on the disk, and a header on the disk may
  point back to itself, so their recursion carries fuel: one unit per header entered.
  Running out of fuel is a fault of its own. The loops inside one header stop at the
  end of \<open>dataSectors\<close> at the latest.
\<close>

function DeallocateChildren ::
  "(FileHeader \<Rightarrow> bitmap \<Rightarrow> fault + bitmap) \<Rightarrow> FileSys \<Rightarrow> int \<Rightarrow> FileHeader \<Rightarrow> bitmap \<Rightarrow>
   int \<Rightarrow> nat \<Rightarrow> fault + bitmap" where
  "DeallocateChildren child fs lvl h freeMap remainBytes idx =
     (if remainBytes > 0
      then
        if idx \<ge> length (dataSectors h) then Inl OutOfBounds
        else
          case FetchFrom fs (dataSectors h ! idx) of
            Inl e \<Rightarrow> Inl e
          | Inr next_level \<Rightarrow>
              (case child next_level freeMap of
                 Inl e \<Rightarrow> Inl e
               | Inr freeMap1 \<Rightarrow>
                   DeallocateChildren child fs lvl h freeMap1 (remainBytes - lvl) (Suc idx))
      else Inr freeMap)"
  by pat_completeness auto
termination
  by (relation "measure (\<lambda>(child, fs, lvl, h, freeMap, remainBytes, idx).
        length (dataSectors h) - idx)") auto

declare DeallocateChildren.simps [simp del]

function DeallocateData :: "geometry \<Rightarrow> FileHeader \<Rightarrow> bitmap \<Rightarrow> int \<Rightarrow> nat \<Rightarrow> fault + bitmap" where
  "DeallocateData g h freeMap remainBytes idx =
     (if remainBytes > 0
      then
        if idx \<ge> length (dataSectors h) then Inl OutOfBounds
        else
          case Test freeMap (dataSectors h ! idx) of
            Inl e \<Rightarrow> Inl e
          | Inr marked \<Rightarrow>
              if \<not> marked then Inl AssertionFailed
              else
                (case Clear freeMap (dataSectors h ! idx) of
                   Inl e \<Rightarrow> Inl e
                 | Inr freeMap1 \<Rightarrow>
                     DeallocateData g h freeMap1 (remainBytes - int (SectorSize g)) (Suc idx))
      else Inr freeMap)"
  by pat_completeness auto
termination
  by (relation "measure (\<lambda>(g, h, freeMap, remainBytes, idx). length (dataSectors h) - idx)") auto

declare DeallocateData.simps [simp del]

fun Deallocate :: "nat \<Rightarrow> geometry \<Rightarrow> FileSys \<Rightarrow> FileHeader \<Rightarrow> bitmap \<Rightarrow> fault + bitmap" where
  "Deallocate 0 g fs this freeMap = Inl OutOfFuel"
| "Deallocate (Suc fuel) g fs this freeMap =
     (let remainBytes = numBytes this
      in if remainBytes > bytes_in_level3 g
         then DeallocateChildren (\<lambda>c fm. Deallocate fuel g fs c fm) fs (bytes_in_level3 g)
                this freeMap remainBytes 0
         else if remainBytes > bytes_in_level2 g
         then DeallocateChildren (\<lambda>c fm. Deallocate fuel g fs c fm) fs (bytes_in_level2 g)
                this freeMap remainBytes 0
         else if remainBytes > bytes_in_level1 g
         then DeallocateChildren (\<lambda>c fm. Deallocate fuel g fs c fm) fs (bytes_in_level1 g)
                this freeMap remainBytes 0
         else DeallocateData g this freeMap remainBytes 0)"

text \<open>
  \<^verbatim>\<open>ByteToSector\<close>: in the three indirect branches the source calls the child and drops
  what it returns; control then reaches the end of the function.
\<close>

definition ByteToSectorChild ::
  "(FileHeader \<Rightarrow> int \<Rightarrow> fault + int) \<Rightarrow> FileSys \<Rightarrow> int \<Rightarrow> FileHeader \<Rightarrow> int \<Rightarrow> fault + int" where
  "ByteToSectorChild child fs lvl h offset =
     (let idx = divRoundDown offset lvl
      in if lvl = 0 then Inl DivisionByZero
         else
         case slot h idx of
           Inl e \<Rightarrow> Inl e
         | Inr s \<Rightarrow>
             (case FetchFrom fs s of
                Inl e \<Rightarrow> Inl e
              | Inr next_level \<Rightarrow>
                  (case child next_level (offset - lvl * idx) of
                     Inl e \<Rightarrow> Inl e
                   | Inr found \<Rightarrow> Inl NoReturnValue)))"

fun ByteToSector :: "nat \<Rightarrow> geometry \<Rightarrow> FileSys \<Rightarrow> FileHeader \<Rightarrow> int \<Rightarrow> fault + int" where
  "ByteToSector 0 g fs this offset = Inl OutOfFuel"
| "ByteToSector (Suc fuel) g fs this offset =
     (if numBytes this > bytes_in_level3 g
      then ByteToSectorChild (\<lambda>c off. ByteToSector fuel g fs c off) fs (bytes_in_level3 g) this offset
      else if numBytes this > bytes_in_level2 g
      then ByteToSectorChild (\<lambda>c off. ByteToSector fuel g fs c off) fs (bytes_in_level2 g) this offset
      else if numBytes this > bytes_in_level1 g
      then ByteToSectorChild (\<lambda>c off. ByteToSector fuel g fs c off) fs (bytes_in_level1 g) this offset
      else if SectorSize g = 0 then Inl DivisionByZero
      else slot this (c_div offset (int (SectorSize g))))"

function CountChildren ::
  "(FileHeader \<Rightarrow> fault + int) \<Rightarrow> FileSys \<Rightarrow> int \<Rightarrow> FileHeader \<Rightarrow> int \<Rightarrow> nat \<Rightarrow> int \<Rightarrow>
   fault + int" where
  "CountChildren child fs lvl h remainBytes idx count =
     (if remainBytes > 0
      then
        if idx \<ge> length (dataSectors h) then Inl OutOfBounds
        else
          case FetchFrom fs (dataSectors h ! idx) of
            Inl e \<Rightarrow> Inl e
          | Inr next_level \<Rightarrow>
              (case child next_level of
                 Inl e \<Rightarrow> Inl e
               | Inr c \<Rightarrow> CountChildren child fs lvl h (remainBytes - lvl) (Suc idx) (count + c))
      else Inr count)"
  by pat_completeness auto
termination
  by (relation "measure (\<lambda>(child, fs, lvl, h, remainBytes, idx, count).
        length (dataSectors h) - idx)") auto

declare CountChildren.simps [simp del]

fun CountHeader :: "nat \<Rightarrow> geometry \<Rightarrow> FileSys \<Rightarrow> FileHeader \<Rightarrow> fault + int" where
  "CountHeader 0 g fs this = Inl OutOfFuel"
| "CountHeader (Suc fuel) g fs this =
     (let remainBytes = numBytes this
      in if remainBytes > bytes_in_level3 g
         then CountChildren (\<lambda>c. CountHeader fuel g fs c) fs (bytes_in_level3 g) this remainBytes 0 0
         else if remainBytes > bytes_in_level2 g
         then CountChildren (\<lambda>c. CountHeader fuel g fs c) fs (bytes_in_level2 g) this remainBytes 0 0
         else if remainBytes > bytes_in_level1 g
         then CountChildren (\<lambda>c. CountHeader fuel g fs c) fs (bytes_in_level1 g) this remainBytes 0 0
         else Inr 1)"

subsection \<open>Directories (filesys/directory.cc)\<close>

type_synonym directory = "DirectoryEntry list"

text \<open>
  \<^verbatim>\<open>!strncmp(table[i].name, name, FileNameMaxLen)\<close>. The name looked up is a \<^verbatim>\<open>char *\<close>:
  the file system passes on what \<^verbatim>\<open>strtok\<close> returned, which is \<^verbatim>\<open>NULL\<close> (\<open>None\<close>) at the end
  of the path. Comparing with \<^verbatim>\<open>NULL\<close> is a fault; an entry that is not in use is never
  compared (\<^verbatim>\<open>&&\<close> does not evaluate its right operand then).
\<close>

definition same_name :: "geometry \<Rightarrow> string \<Rightarrow> string option \<Rightarrow> fault + bool" where
  "same_name g a b =
     (case b of
        None \<Rightarrow> Inl NullPointer
      | Some nm \<Rightarrow> Inr (take (FileNameMaxLen g) a = take (FileNameMaxLen g) nm))"

text \<open>The index of the first entry that the test accepts, \<open>-1\<close> when there is none.\<close>

fun first_match :: "('a \<Rightarrow> fault + bool) \<Rightarrow> 'a list \<Rightarrow> nat \<Rightarrow> fault + int" where
  "first_match P [] i = Inr (-1)"
| "first_match P (x # xs) i =
     (case P x of
        Inl e \<Rightarrow> Inl e
      | Inr hit \<Rightarrow> if hit then Inr (int i) else first_match P xs (Suc i))"

fun first_index :: "('a \<Rightarrow> bool) \<Rightarrow> 'a list \<Rightarrow> nat \<Rightarrow> int" where
  "first_index P [] i = -1"
| "first_index P (x # xs) i = (if P x then int i else first_index P xs (Suc i))"

definition FindIndex :: "geometry \<Rightarrow> directory \<Rightarrow> string option \<Rightarrow> fault + int" where
  "FindIndex g tbl nm =
     first_match (\<lambda>e. if inUse e then same_name g (name e) nm else Inr False) tbl 0"

definition FindDirIndex :: "geometry \<Rightarrow> directory \<Rightarrow> string option \<Rightarrow> fault + int" where
  "FindDirIndex g tbl nm =
     first_match (\<lambda>e. if inUse e \<and> isdir e then same_name g (name e) nm else Inr False) tbl 0"

definition Find :: "geometry \<Rightarrow> directory \<Rightarrow> string option \<Rightarrow> fault + int" where
  "Find g tbl nm =
     (case FindIndex g tbl nm of
        Inl e \<Rightarrow> Inl e
      | Inr i \<Rightarrow> Inr (if i \<noteq> -1 then sector (tbl ! nat i) else -1))"

definition FindDir :: "geometry \<Rightarrow> directory \<Rightarrow> string option \<Rightarrow> fault + int" where
  "FindDir g tbl nm =
     (case FindDirIndex g tbl nm of
        Inl e \<Rightarrow> Inl e
      | Inr i \<Rightarrow> Inr (if i \<noteq> -1 then sector (tbl ! nat i) else -1))"

text \<open>
  \<open>Add\<close> and \<open>AddDir\<close>: the entry is marked before \<^verbatim>\<open>strncpy\<close> copies the name, and copying
  from \<^verbatim>\<open>NULL\<close> is a fault.
\<close>

definition Add :: "geometry \<Rightarrow> directory \<Rightarrow> string option \<Rightarrow> int \<Rightarrow> fault + (bool \<times> directory)" where
  "Add g tbl nm newSector =
     (case FindIndex g tbl nm of
        Inl e \<Rightarrow> Inl e
      | Inr found \<Rightarrow>
          if found \<noteq> -1 then Inr (False, tbl)
          else
            let i = first_index (\<lambda>e. \<not> inUse e) tbl 0
            in if i \<noteq> -1
               then (case nm of
                       None \<Rightarrow> Inl NullPointer
                     | Some n \<Rightarrow>
                         Inr (True, tbl[nat i := \<lparr>inUse = True, isdir = False,
                                                  name = take (FileNameMaxLen g) n,
                                                  sector = newSector\<rparr>]))
               else Inr (False, tbl))"

definition AddDir :: "geometry \<Rightarrow> directory \<Rightarrow> string option \<Rightarrow> int \<Rightarrow> fault + (bool \<times> directory)" where
  "AddDir g tbl nm newSector =
     (case FindIndex g tbl nm of
        Inl e \<Rightarrow> Inl e
      | Inr found \<Rightarrow>
          if found \<noteq> -1 then Inr (False, tbl)
          else
            let i = first_index (\<lambda>e. \<not> inUse e) tbl 0
            in if i \<noteq> -1
               then (case nm of
                       None \<Rightarrow> Inl NullPointer
                     | Some n \<Rightarrow>
                         Inr (True, tbl[nat i := \<lparr>inUse = True, isdir = True,
                                                  name = take (FileNameMaxLen g) n,
                                                  sector = newSector\<rparr>]))
               else Inr (False, tbl))"

definition Remove_entry :: "geometry \<Rightarrow> directory \<Rightarrow> string option \<Rightarrow> fault + (bool \<times> directory)" where
  "Remove_entry g tbl nm =
     (case FindIndex g tbl nm of
        Inl e \<Rightarrow> Inl e
      | Inr i \<Rightarrow>
          if i = -1 then Inr (False, tbl)
          else Inr (True, tbl[nat i := (tbl ! nat i)\<lparr>inUse := False, isdir := False\<rparr>]))"

definition NewDirectory :: "geometry \<Rightarrow> directory" where
  "NewDirectory g =
     replicate (NumDirEntries g) \<lparr>inUse = False, isdir = False, name = [], sector = 0\<rparr>"

definition Directory_FetchFrom :: "FileSys \<Rightarrow> int \<Rightarrow> fault + directory" where
  "Directory_FetchFrom fs file = (case dirTable fs file of None \<Rightarrow> Inl BadSector | Some t \<Rightarrow> Inr t)"

definition Directory_WriteBack :: "directory \<Rightarrow> int \<Rightarrow> FileSys \<Rightarrow> FileSys" where
  "Directory_WriteBack tbl file fs = fs\<lparr>dirTable := (dirTable fs)(file \<mapsto> tbl)\<rparr>"

subsection \<open>The file system (filesys/filesys.cc)\<close>

text \<open>\<^verbatim>\<open>strtok(name, "/")\<close> and its continuation calls: the non-empty stretches between slashes.\<close>

fun strtok :: "string \<Rightarrow> string \<Rightarrow> string list" where
  "strtok cur [] = (if cur = [] then [] else [cur])"
| "strtok cur (c # cs) =
     (if c = CHR ''/''
      then (if cur = [] then strtok [] cs else cur # strtok [] cs)
      else strtok (cur @ [c]) cs)"

text \<open>
  The path loop of \<open>Create\<close> and \<open>Remove\<close>: the directory reached, the file it was read
  from (\<^verbatim>\<open>prevDirOpenFile\<close>) and the token at which the loop stopped (\<open>None\<close> for \<^verbatim>\<open>NULL\<close>:
  every component named a directory). \<^verbatim>\<open>new OpenFile(sector)\<close> fetches the header of the
  sector.
\<close>

fun ResolvePath ::
  "geometry \<Rightarrow> FileSys \<Rightarrow> directory \<Rightarrow> int \<Rightarrow> string list \<Rightarrow>
   fault + (directory \<times> int \<times> string option)" where
  "ResolvePath g fs dir prevDirOpenFile [] = Inr (dir, prevDirOpenFile, None)"
| "ResolvePath g fs dir prevDirOpenFile (token # rest) =
     (case FindDir g dir (Some token) of
        Inl e \<Rightarrow> Inl e
      | Inr sec \<Rightarrow>
          if sec < 0 then Inr (dir, prevDirOpenFile, Some token)
          else
            case FetchFrom fs sec of
              Inl e \<Rightarrow> Inl e
            | Inr temp_hdr \<Rightarrow>
                (case Directory_FetchFrom fs sec of
                   Inl e \<Rightarrow> Inl e
                 | Inr dir1 \<Rightarrow> ResolvePath g fs dir1 sec rest))"

definition Format :: "geometry \<Rightarrow> FileSys \<Rightarrow> fault + FileSys" where
  "Format g disk =
     (let freeMap = replicate (NumSectors g) False;
          dir = NewDirectory g
      in case Mark freeMap FreeMapSector of
           Inl e \<Rightarrow> Inl e
         | Inr freeMap1 \<Rightarrow>
         (case Mark freeMap1 DirectorySector of
            Inl e \<Rightarrow> Inl e
          | Inr freeMap2 \<Rightarrow>
          (case Allocate g (NewFileHeader g) freeMap2 (FreeMapFileSize g) disk of
             Inl e \<Rightarrow> Inl e
           | Inr (ok1, mapHdr, freeMap3, disk1) \<Rightarrow>
               if \<not> ok1 then Inl AssertionFailed
               else
                 (case Allocate g (NewFileHeader g) freeMap3 (DirectoryFileSize g) disk1 of
                    Inl e \<Rightarrow> Inl e
                  | Inr (ok2, dirHdr, freeMap4, disk2) \<Rightarrow>
                      if \<not> ok2 then Inl AssertionFailed
                      else
                        Inr (Directory_WriteBack dir DirectorySector
                              ((WriteBack dirHdr DirectorySector
                                 (WriteBack mapHdr FreeMapSector disk2))
                               \<lparr>freeMapFile := freeMap4\<rparr>))))))"

text \<open>
  \<open>Create\<close>. After the path loop the token is looked up as it is, \<^verbatim>\<open>NULL\<close> included (a path
  whose every component names a directory): \<open>Find\<close> and \<open>Add\<close> say what happens then.
\<close>

definition Create :: "geometry \<Rightarrow> string \<Rightarrow> int \<Rightarrow> FileSys \<Rightarrow> fault + (bool \<times> FileSys)" where
  "Create g path initialSize fs =
     (case Directory_FetchFrom fs DirectorySector of
        Inl e \<Rightarrow> Inl e
      | Inr rootDir \<Rightarrow>
          (case ResolvePath g fs rootDir DirectorySector (strtok [] path) of
             Inl e \<Rightarrow> Inl e
           | Inr (dir, prevDirOpenFile, token) \<Rightarrow>
               (case Find g dir token of
                  Inl e \<Rightarrow> Inl e
                | Inr sec \<Rightarrow>
                    if sec \<ge> 0 then Inr (False, fs)
                    else
                      let (new_sector, freeMap1) = FindAndSet (freeMapFile fs)
                      in if new_sector = -1 then Inr (False, fs)
                         else
                           (case Add g dir token new_sector of
                              Inl e \<Rightarrow> Inl e
                            | Inr (added, dir1) \<Rightarrow>
                                if \<not> added then Inr (False, fs)
                                else
                                  (case Allocate g (NewFileHeader g) freeMap1 initialSize fs of
                                     Inl e \<Rightarrow> Inl e
                                   | Inr (ok, hdr, freeMap2, fs2) \<Rightarrow>
                                       if \<not> ok then Inr (False, fs2)
                                       else
                                         Inr (True,
                                              (Directory_WriteBack dir1 prevDirOpenFile
                                                 (WriteBack hdr new_sector fs2))
                                              \<lparr>freeMapFile := freeMap2\<rparr>))))))"

text \<open>
  \<open>Remove\<close>. The token is looked up as it is here too; a lookup that finds nothing
  (\<^verbatim>\<open>sector == -1\<close>) makes \<open>Remove\<close> return false before any header is fetched.
\<close>

definition Remove :: "nat \<Rightarrow> geometry \<Rightarrow> string \<Rightarrow> FileSys \<Rightarrow> fault + (bool \<times> FileSys)" where
  "Remove fuel g path fs =
     (case Directory_FetchFrom fs DirectorySector of
        Inl e \<Rightarrow> Inl e
      | Inr rootDir \<Rightarrow>
          (case ResolvePath g fs rootDir DirectorySector (strtok [] path) of
             Inl e \<Rightarrow> Inl e
           | Inr (dir, prevDirOpenFile, token) \<Rightarrow>
               (case Find g dir token of
                  Inl e \<Rightarrow> Inl e
                | Inr sec \<Rightarrow>
                    if sec = -1 then Inr (False, fs)
                    else
                      (case FetchFrom fs sec of
                         Inl e \<Rightarrow> Inl e
                       | Inr fileHdr \<Rightarrow>
                           (case Deallocate fuel g fs fileHdr (freeMapFile fs) of
                              Inl e \<Rightarrow> Inl e
                            | Inr freeMap1 \<Rightarrow>
                                (case Clear freeMap1 sec of
                                   Inl e \<Rightarrow> Inl e
                                 | Inr freeMap2 \<Rightarrow>
                                     (case Remove_entry g dir token of
                                        Inl e \<Rightarrow> Inl e
                                      | Inr (removed, dir1) \<Rightarrow>
                                          Inr (True,
                                               Directory_WriteBack dir1 prevDirOpenFile
                                                 (fs\<lparr>freeMapFile := freeMap2\<rparr>)))))))))"

text \<open>
  The path loop of \<open>RemoveDir\<close>. \<open>sec\<close> and \<open>pre_token\<close> have no initial value in the
  source: \<open>None\<close> stands for a variable that was never assigned. When a component does not
  name a directory the loop is left with \<open>sec\<close> holding the negative result of that lookup.
\<close>

fun ResolvePathDir ::
  "geometry \<Rightarrow> FileSys \<Rightarrow> directory \<Rightarrow> int option \<Rightarrow> int \<Rightarrow> int option \<Rightarrow> string option \<Rightarrow>
   string list \<Rightarrow> fault + (directory \<times> int \<times> int option \<times> string option)" where
  "ResolvePathDir g fs dir temp prevDirOpenFile sec pre_token [] =
     Inr (dir, prevDirOpenFile, sec, pre_token)"
| "ResolvePathDir g fs dir temp prevDirOpenFile sec pre_token (token # rest) =
     (let prev1 = (case temp of None \<Rightarrow> DirectorySector | Some t \<Rightarrow> t)
      in case FindDir g dir (Some token) of
           Inl e \<Rightarrow> Inl e
         | Inr sec1 \<Rightarrow>
             if sec1 < 0 then Inr (dir, prev1, Some sec1, pre_token)
             else
               case FetchFrom fs sec1 of
                 Inl e \<Rightarrow> Inl e
               | Inr temp_hdr \<Rightarrow>
                   (case Directory_FetchFrom fs sec1 of
                      Inl e \<Rightarrow> Inl e
                    | Inr dir1 \<Rightarrow>
                        ResolvePathDir g fs dir1 (Some sec1) prev1 (Some sec1) (Some token) rest))"

text \<open>
  \<open>RemoveDir\<close>. Unlike \<open>Remove\<close> it does not look at \<open>sec\<close> before it fetches the header
  stored there.
\<close>

definition RemoveDir :: "nat \<Rightarrow> geometry \<Rightarrow> string \<Rightarrow> FileSys \<Rightarrow> fault + (bool \<times> FileSys)" where
  "RemoveDir fuel g path fs =
     (case Directory_FetchFrom fs DirectorySector of
        Inl e \<Rightarrow> Inl e
      | Inr rootDir \<Rightarrow>
          (case ResolvePathDir g fs rootDir None DirectorySector None None (strtok [] path) of
             Inl e \<Rightarrow> Inl e
           | Inr (dir, prevDirOpenFile, sec_var, pre_token) \<Rightarrow>
               (case sec_var of
                  None \<Rightarrow> Inl Uninitialised
                | Some sec \<Rightarrow>
                    (case FetchFrom fs sec of
                       Inl e \<Rightarrow> Inl e
                     | Inr fileHdr \<Rightarrow>
                         (case Deallocate fuel g fs fileHdr (freeMapFile fs) of
                            Inl e \<Rightarrow> Inl e
                          | Inr freeMap1 \<Rightarrow>
                              (case Clear freeMap1 sec of
                                 Inl e \<Rightarrow> Inl e
                               | Inr freeMap2 \<Rightarrow>
                                   (case Directory_FetchFrom fs prevDirOpenFile of
                                      Inl e \<Rightarrow> Inl e
                                    | Inr dir1 \<Rightarrow>
                                        (case pre_token of
                                           None \<Rightarrow> Inl Uninitialised
                                         | Some tok \<Rightarrow>
                                             (case Remove_entry g dir1 (Some tok) of
                                                Inl e \<Rightarrow> Inl e
                                              | Inr (removed, dir2) \<Rightarrow>
                                                  Inr (True,
                                                       Directory_WriteBack dir2 prevDirOpenFile
                                                         (fs\<lparr>freeMapFile := freeMap2\<rparr>)))))))))))"

definition CreateSubDir :: "geometry \<Rightarrow> string \<Rightarrow> FileSys \<Rightarrow> fault + (bool \<times> FileSys)" where
  "CreateSubDir g path fs =
     (case Directory_FetchFrom fs DirectorySector of
        Inl e \<Rightarrow> Inl e
      | Inr rootDir \<Rightarrow>
          (case ResolvePath g fs rootDir DirectorySector (strtok [] path) of
             Inl e \<Rightarrow> Inl e
           | Inr (dir, prevDirOpenFile, token) \<Rightarrow>
               (case token of
                  None \<Rightarrow> Inr (False, fs)
                | Some tok \<Rightarrow>
                    let (new_sector, freeMap1) = FindAndSet (freeMapFile fs)
                    in if new_sector = -1 then Inr (False, fs)
                       else
                         (case AddDir g dir (Some tok) new_sector of
                            Inl e \<Rightarrow> Inl e
                          | Inr (added, dir1) \<Rightarrow>
                              if \<not> added then Inr (False, fs)
                              else
                                (case Allocate g (NewFileHeader g) freeMap1 (DirectoryFileSize g) fs of
                                   Inl e \<Rightarrow> Inl e
                                 | Inr (ok, dirhdr, freeMap2, fs2) \<Rightarrow>
                                     if \<not> ok then Inr (False, fs2)
                                     else
                                       Inr (True,
                                            (Directory_WriteBack dir1 prevDirOpenFile
                                               (Directory_WriteBack (NewDirectory g) new_sector
                                                  (WriteBack dirhdr new_sector fs2)))
                                            \<lparr>freeMapFile := freeMap2\<rparr>))))))"

subsection \<open>The header count in the spec's words\<close>

text \<open>
  For comparison with \<open>CountHeader\<close> only. It follows the spec's words, ``total inode
  sectors, inclusive of indirects'': a header counts itself, and an indirect header counts
  every header below it as well.
\<close>

fun TotalHeaderSectors :: "nat \<Rightarrow> geometry \<Rightarrow> FileSys \<Rightarrow> FileHeader \<Rightarrow> fault + int" where
  "TotalHeaderSectors 0 g fs this = Inl OutOfFuel"
| "TotalHeaderSectors (Suc fuel) g fs this =
     (let remainBytes = numBytes this;
          lvl = (if remainBytes > bytes_in_level3 g then bytes_in_level3 g
                 else if remainBytes > bytes_in_level2 g then bytes_in_level2 g
                 else bytes_in_level1 g)
      in if remainBytes > bytes_in_level1 g
         then CountChildren (\<lambda>c. TotalHeaderSectors fuel g fs c) fs lvl this remainBytes 0 1
         else Inr 1)"

section \<open>Concrete states used to exercise the theorems\<close>

definition mkThread :: "int \<Rightarrow> real \<Rightarrow> int \<Rightarrow> Thread" where
  "mkThread p rb irt =
     \<lparr>priority = p, remain_burst = rb, approx_burst = rb, true_burst = 0,
      insert_ready_time = irt, total_ready_time = 0, status = READY\<rparr>"

definition kernel_three :: Kernel where
  "kernel_three =
     \<lparr>L1 = [], L2 = [], L3 = [],
      threads = (\<lambda>t. if t = 1 then mkThread 120 0 0
                     else if t = 2 then mkThread 70 0 0
                     else mkThread 20 0 0),
      currentThread = 0, totalTicks = 0, interruptsOff = True\<rparr>"

definition kernel_alone :: Kernel where
  "kernel_alone =
     \<lparr>L1 = [], L2 = [], L3 = [],
      threads = (\<lambda>t. mkThread 120 40 0),
      currentThread = 0, totalTicks = 100, interruptsOff = True\<rparr>"

definition kernel_aging :: Kernel where
  "kernel_aging =
     \<lparr>L1 = [1], L2 = [2, 3], L3 = [4, 5],
      threads = (\<lambda>t. if t = 1 then mkThread 145 30 0
                     else if t = 2 then mkThread 95 0 100
                     else if t = 3 then mkThread 60 0 2000
                     else if t = 4 then mkThread 45 0 1000
                     else mkThread 10 0 0),
      currentThread = 0, totalTicks = 3000, interruptsOff = True\<rparr>"

definition machine_small :: machine where
  "machine_small = \<lparr>PageSize = 128, NumPhysPages = 4, UserStackSize = 128\<rparr>"

definition space_small :: AddrSpace where
  "space_small =
     \<lparr>pageTable =
        [\<lparr>virtualPage = 0, physicalPage = 2, valid = True, readOnly = True, use = False, dirty = False\<rparr>,
         \<lparr>virtualPage = 1, physicalPage = 3, valid = True, readOnly = False, use = False, dirty = False\<rparr>,
         \<lparr>virtualPage = 2, physicalPage = 9, valid = True, readOnly = False, use = False, dirty = False\<rparr>],
      numPages = 3\<rparr>"


text \<open>
  A small disk: sectors of 8 bytes, headers of 2 slots, 16 sectors, directories of 2
  entries of 4 bytes. One level of headers holds 16 bytes, so a file of 17 bytes needs one
  level of indirection: 3 data sectors and 2 child headers besides its own header.
\<close>

definition geometry_small :: geometry where
  "geometry_small =
     \<lparr>SectorSize = 8, NumDirect = 2, NumSectors = 16, FileNameMaxLen = 9,
      NumDirEntries = 2, DirectoryEntrySize = 4\<rparr>"

definition blank_disk :: FileSys where
  "blank_disk = \<lparr>sectorHdr = (\<lambda>s. None), dirTable = (\<lambda>s. None), freeMapFile = []\<rparr>"

definition freeMap_four_clear :: bitmap where
  "freeMap_four_clear =
     [True, True, True, True, True, True, True, True,
      True, True, True, True, False, False, False, False]"

definition freeMap_three_clear :: bitmap where
  "freeMap_three_clear =
     [True, True, True, True, True, True, True, True,
      True, True, True, True, True, False, False, False]"

text \<open>
  A machine of four frames of 128 bytes with two of them free, and a program of 200 bytes
  of code: with the stack of 128 bytes it needs three pages.
\<close>

definition frames_two_free :: Frames where
  "frames_two_free = \<lparr>FrameTable = [1, 0, 1, 0], FreeFrame = 2\<rparr>"

definition frames_three_free :: Frames where
  "frames_three_free = \<lparr>FrameTable = [1, 0, 1, 1], FreeFrame = 3\<rparr>"

definition noff_three_pages :: NoffHeader where
  "noff_three_pages =
     \<lparr>noffMagic = 0xbadfad,
      code = \<lparr>virtualAddr = 0, inFileAddr = 40, segSize = 200\<rparr>,
      readonlyData = None,
      initData = \<lparr>virtualAddr = 0, inFileAddr = 0, segSize = 0\<rparr>,
      uninitData = \<lparr>virtualAddr = 0, inFileAddr = 0, segSize = 0\<rparr>\<rparr>"

text \<open>The same program with its code placed at address 1000, beyond its three pages.\<close>

definition noff_code_outside :: NoffHeader where
  "noff_code_outside =
     noff_three_pages\<lparr>code := \<lparr>virtualAddr = 1000, inFileAddr = 40, segSize = 200\<rparr>\<rparr>"

text \<open>
  A header whose sizes are each below \<open>2^31\<close> and add up, with the stack of 128 bytes,
  to \<open>2^32 + 128\<close>.
\<close>

definition noff_wraps :: NoffHeader where
  "noff_wraps =
     \<lparr>noffMagic = 0xbadfad,
      code = \<lparr>virtualAddr = 0, inFileAddr = 40, segSize = 2147483647\<rparr>,
      readonlyData = None,
      initData = \<lparr>virtualAddr = 0, inFileAddr = 0, segSize = 2147483647\<rparr>,
      uninitData = \<lparr>virtualAddr = 0, inFileAddr = 0, segSize = 2\<rparr>\<rparr>"

definition space_new :: AddrSpace where
  "space_new = \<lparr>pageTable = [], numPages = 0\<rparr>"

text \<open>The small disk after formatting, and after \<open>/d\<close> has been made a directory on it.\<close>

definition disk_formatted :: FileSys where
  "disk_formatted =
     (case Format geometry_small blank_disk of Inl e \<Rightarrow> blank_disk | Inr fs \<Rightarrow> fs)"

definition disk_with_dir :: FileSys where
  "disk_with_dir =
     (case CreateSubDir geometry_small ''/d'' disk_formatted of
        Inl e \<Rightarrow> blank_disk
      | Inr (ok, fs) \<Rightarrow> fs)"

text \<open>
  A disk with the constants of the stock NachOS headers: sectors of 128 bytes, 30 slots in
  a header, 1024 sectors, 64 directory entries of 20 bytes. One level of headers holds
  3840 bytes.
\<close>

definition geometry_stock :: geometry where
  "geometry_stock =
     \<lparr>SectorSize = 128, NumDirect = 30, NumSectors = 1024, FileNameMaxLen = 9,
      NumDirEntries = 64, DirectoryEntrySize = 20\<rparr>"

section \<open>Properties of address translation\<close>

lemma frame_address_bound:
  assumes "0 < (ps::nat)" "pfn < npp"
  shows "pfn * ps + v mod ps < npp * ps"
proof -
  have "v mod ps < ps" using assms(1) by simp
  then have "pfn * ps + v mod ps < Suc pfn * ps" by simp
  also have "Suc pfn * ps \<le> npp * ps" using assms(2) by (intro mult_le_mono1) simp
  finally show ?thesis .
qed

text \<open>
  Claim C1. For an address space whose page table has \<open>numPages\<close> entries, \<open>Translate\<close>
  checks in this order: a virtual page number at or beyond \<open>numPages\<close> gives
  \<open>AddressErrorException\<close>; else a write to a read-only entry gives
  \<open>ReadOnlyException\<close>; else a physical page at or beyond \<open>NumPhysPages\<close> gives
  \<open>BusErrorException\<close>; each failure leaves the address space as it was and stores no
  address. Otherwise the entry gets \<open>use\<close> set, and \<open>dirty\<close> set on a write and kept
  on a read, the address returned is \<open>physicalPage * PageSize + vaddr mod PageSize\<close>,
  and it lies below \<open>MemorySize\<close>, so the final assertion never fails.
\<close>

theorem Translate_failure_order:
  assumes "0 < PageSize m" "length (pageTable as) = numPages as"
  shows "let vpn = vaddr div PageSize m; pte = pageTable as ! vpn;
             paddr = physicalPage pte * PageSize m + vaddr mod PageSize m
         in (numPages as \<le> vpn \<longrightarrow>
               Translate m as vaddr w = Inr (AddressErrorException, None, as))
          \<and> (vpn < numPages as \<and> w \<and> readOnly pte \<longrightarrow>
               Translate m as vaddr w = Inr (ReadOnlyException, None, as))
          \<and> (vpn < numPages as \<and> \<not> (w \<and> readOnly pte) \<and> NumPhysPages m \<le> physicalPage pte \<longrightarrow>
               Translate m as vaddr w = Inr (BusErrorException, None, as))
          \<and> (vpn < numPages as \<and> \<not> (w \<and> readOnly pte) \<and> physicalPage pte < NumPhysPages m \<longrightarrow>
               Translate m as vaddr w =
                 Inr (NoException, Some paddr,
                      as\<lparr>pageTable := (pageTable as)[vpn := pte\<lparr>use := True, dirty := (w \<or> dirty pte)\<rparr>]\<rparr>)
               \<and> paddr < MemorySize m
               \<and> vpn < length (pageTable as))"
proof -
  have b: "physicalPage (pageTable as ! (vaddr div PageSize m)) * PageSize m + vaddr mod PageSize m
           < MemorySize m"
    if "physicalPage (pageTable as ! (vaddr div PageSize m)) < NumPhysPages m"
    using frame_address_bound [OF assms(1) that] by (simp add: MemorySize_def)
  show ?thesis
    using b assms by (auto simp: Translate_def Let_def)
qed

theorem Translate_failure_order_witness:
  "0 < PageSize machine_small \<and> length (pageTable space_small) = numPages space_small
   \<and> Translate machine_small space_small 400 False = Inr (AddressErrorException, None, space_small)
   \<and> Translate machine_small space_small 5 True = Inr (ReadOnlyException, None, space_small)
   \<and> Translate machine_small space_small 300 True = Inr (BusErrorException, None, space_small)
   \<and> Translate machine_small space_small 130 True =
        Inr (NoException, Some 386,
             space_small\<lparr>pageTable := (pageTable space_small)
               [1 := \<lparr>virtualPage = 1, physicalPage = 3, valid = True, readOnly = False,
                      use = True, dirty = True\<rparr>]\<rparr>)
   \<and> 386 < MemorySize machine_small"
proof -
  have h: "0 < PageSize machine_small" "length (pageTable space_small) = numPages space_small"
    by (simp_all add: machine_small_def space_small_def)
  show ?thesis
    using Translate_failure_order [OF h, of 400 False]
      Translate_failure_order [OF h, of 5 True]
      Translate_failure_order [OF h, of 300 True]
      Translate_failure_order [OF h, of 130 True]
    by (simp add: machine_small_def space_small_def MemorySize_def Let_def)
qed


section \<open>Properties of loading a program\<close>

lemma unsigned_int_mod: "unsigned_int n = n mod 4294967296"
  by (simp add: unsigned_int_def nat_mod_distrib)

text \<open>
  The sum of the sizes wraps around: three segments of \<open>2^31 - 1\<close>, \<open>2^31 - 1\<close> and 2 bytes
  with a stack of 128 bytes make \<open>2^32 + 128\<close> bytes, and one page is asked for.
\<close>

lemma pagesNeeded_wraps: "pagesNeeded machine_small noff_wraps = 1"
  by (simp add: pagesNeeded_def unsigned_int_mod machine_small_def noff_wraps_def)

lemma map_update_same:
  "k < length xs \<Longrightarrow> f y = f (xs ! k) \<Longrightarrow> map f (xs[k := y]) = map f xs"
  by (simp add: map_update list_update_same_conv)

lemma Translate_read_mapped:
  assumes "0 < PageSize m" "mapped m before after as" "vaddr < numPages as * PageSize m"
  shows "Translate m as vaddr False =
           Inr (NoException,
                Some (physicalPage (pageTable as ! (vaddr div PageSize m)) * PageSize m
                        + vaddr mod PageSize m),
                as\<lparr>pageTable := (pageTable as)
                     [vaddr div PageSize m :=
                        (pageTable as ! (vaddr div PageSize m))\<lparr>use := True\<rparr>]\<rparr>)"
proof -
  let ?vpn = "vaddr div PageSize m"
  have v: "?vpn < numPages as"
    using assms(1,3) by (simp add: less_mult_imp_div_less)
  then have p: "physicalPage (pageTable as ! ?vpn) < NumPhysPages m"
    using assms(2) by (simp add: mapped_def list_all_length)
  have "physicalPage (pageTable as ! ?vpn) * PageSize m + vaddr mod PageSize m < MemorySize m"
    using frame_address_bound [OF assms(1) p] by (simp add: MemorySize_def)
  then show ?thesis using v p assms(1) by (simp add: Translate_def Let_def)
qed

text \<open>Setting the flags of an entry leaves the mapping as it is.\<close>

lemma mapped_update_flags:
  assumes "mapped m before after as" "vpn < numPages as"
    "physicalPage e = physicalPage (pageTable as ! vpn)"
    "valid e = valid (pageTable as ! vpn)"
    "virtualPage e = virtualPage (pageTable as ! vpn)"
  shows "mapped m before after (as\<lparr>pageTable := (pageTable as)[vpn := e]\<rparr>)"
proof -
  have len: "length (pageTable as) = numPages as" using assms(1) by (simp add: mapped_def)
  then have k: "vpn < length (pageTable as)" using assms(2) by simp
  have a: "map virtualPage ((pageTable as)[vpn := e]) = map virtualPage (pageTable as)"
    by (rule map_update_same [OF k assms(5)])
  have b: "map physicalPage ((pageTable as)[vpn := e]) = map physicalPage (pageTable as)"
    by (rule map_update_same [OF k assms(3)])
  have c: "list_all (\<lambda>e. valid e \<and> physicalPage e < NumPhysPages m
                     \<and> before ! physicalPage e = 1 \<and> after ! physicalPage e = 0)
             ((pageTable as)[vpn := e])"
    using assms(1,3,4) k by (auto simp: mapped_def list_all_length nth_list_update)
  show ?thesis using assms(1) len a b c by (simp add: mapped_def)
qed

lemma LoadSegment_fits:
  "0 < PageSize m \<Longrightarrow> mapped m before after as \<Longrightarrow>
   insertBase + remainSize \<le> numPages as * PageSize m \<Longrightarrow>
   \<exists>as'. LoadSegment m resumes ro as remainSize insertBase = Inr (None, as')
         \<and> mapped m before after as' \<and> numPages as' = numPages as"
proof (induction remainSize arbitrary: as insertBase rule: less_induct)
  case (less remainSize)
  show ?case
  proof (cases "remainSize > 0")
    case False
    then show ?thesis using less.prems(2) by (simp add: LoadSegment.simps)
  next
    case True
    let ?vpn = "insertBase div PageSize m"
    let ?ins = "min remainSize (PageSize m)"
    let ?as1 = "as\<lparr>pageTable := (pageTable as)[?vpn := (pageTable as ! ?vpn)\<lparr>use := True\<rparr>]\<rparr>"
    let ?as2 = "?as1\<lparr>pageTable := (pageTable ?as1)[?vpn := (pageTable ?as1 ! ?vpn)\<lparr>readOnly := ro\<rparr>]\<rparr>"
    have lt: "insertBase < numPages as * PageSize m" using True less.prems(3) by simp
    have v: "?vpn < numPages as" using less.prems(1) lt by (simp add: less_mult_imp_div_less)
    have len: "length (pageTable as) = numPages as" using less.prems(2) by (simp add: mapped_def)
    have T: "Translate m as insertBase False =
               Inr (NoException,
                    Some (physicalPage (pageTable as ! ?vpn) * PageSize m + insertBase mod PageSize m),
                    ?as1)"
      by (rule Translate_read_mapped [OF less.prems(1,2) lt])
    have m1: "mapped m before after ?as1"
      by (rule mapped_update_flags [OF less.prems(2) v]) simp_all
    have m2: "mapped m before after ?as2"
      using v len by (intro mapped_update_flags [OF m1]) simp_all
    have n2: "numPages ?as2 = numPages as" by simp
    have ins: "0 < ?ins" "?ins \<le> remainSize" using True less.prems(1) by simp_all
    have "\<exists>as'. LoadSegment m resumes ro ?as2 (remainSize - ?ins) (insertBase + ?ins) = Inr (None, as')
         \<and> mapped m before after as' \<and> numPages as' = numPages ?as2"
      using ins less.prems(1,3) m2 by (intro less.IH) simp_all
    then obtain as' where
      r: "LoadSegment m resumes ro ?as2 (remainSize - ?ins) (insertBase + ?ins) = Inr (None, as')"
        "mapped m before after as'" "numPages as' = numPages as"
      by auto
    have "LoadSegment m resumes ro as remainSize insertBase
          = LoadSegment m resumes ro ?as2 (remainSize - ?ins) (insertBase + ?ins)"
      using True less.prems(1) v len
      by (subst LoadSegment.simps) (simp add: T Let_def)
    then show ?thesis using r by simp
  qed
qed

lemma freeCount_drop:
  "i < length ft \<Longrightarrow>
   freeCount (drop i ft) = (if ft ! i = 1 then 1 else 0) + freeCount (drop (Suc i) ft)"
  by (simp add: freeCount_def Cons_nth_drop_Suc [symmetric])

lemma freeCount_claim:
  "i < length ft \<Longrightarrow> ft ! i = 1 \<Longrightarrow> Suc (freeCount (ft[i := 0])) = freeCount ft"
proof (induction ft arbitrary: i)
  case Nil
  then show ?case by simp
next
  case (Cons x xs)
  then show ?case by (cases i) (auto simp: freeCount_def)
qed

text \<open>
  One step of the frame loop at a free frame \<open>i\<close>: the pages below \<open>idx\<close> stay mapped, and
  page \<open>idx\<close> is mapped to frame \<open>i\<close>, above all the frames taken before.
\<close>

lemma frame_step:
  assumes il: "i < length ft" and free: "ft ! i = 1" and same: "\<forall>f\<ge>i. ft ! f = ft0 ! f"
    and idx: "idx < length pt"
    and old: "list_all (\<lambda>e. valid e \<and> physicalPage e < i
                         \<and> ft0 ! physicalPage e = 1 \<and> ft ! physicalPage e = 0) (take idx pt)"
    and vp: "map virtualPage (take idx pt) = [0..<idx]"
    and srt: "sorted_wrt (<) (map physicalPage (take idx pt))"
  shows "list_all (\<lambda>e. valid e \<and> physicalPage e < Suc i
                    \<and> ft0 ! physicalPage e = 1 \<and> (ft[i := 0]) ! physicalPage e = 0)
           (take (Suc idx) (pt[idx := \<lparr>virtualPage = idx, physicalPage = i, valid = True,
                                      readOnly = False, use = False, dirty = False\<rparr>]))
       \<and> map virtualPage
           (take (Suc idx) (pt[idx := \<lparr>virtualPage = idx, physicalPage = i, valid = True,
                                      readOnly = False, use = False, dirty = False\<rparr>]))
         = [0..<Suc idx]
       \<and> sorted_wrt (<) (map physicalPage
           (take (Suc idx) (pt[idx := \<lparr>virtualPage = idx, physicalPage = i, valid = True,
                                      readOnly = False, use = False, dirty = False\<rparr>])))"
proof -
  let ?e = "\<lparr>virtualPage = idx, physicalPage = i, valid = True,
             readOnly = False, use = False, dirty = False\<rparr>"
  have t: "take (Suc idx) (pt[idx := ?e]) = take idx pt @ [?e]"
    using idx by (simp add: take_Suc_conv_app_nth)
  have below: "\<forall>e\<in>set (take idx pt). physicalPage e < i"
    using old by (simp add: list_all_iff)
  have a: "list_all (\<lambda>e. valid e \<and> physicalPage e < Suc i
                    \<and> ft0 ! physicalPage e = 1 \<and> (ft[i := 0]) ! physicalPage e = 0)
             (take idx pt)"
    using old by (auto simp: list_all_iff)
  have b: "ft0 ! i = 1" using same free by (metis le_refl)
  have c: "(ft[i := 0]) ! i = 0" using il by simp
  have d: "sorted_wrt (<) (map physicalPage (take idx pt) @ [i])"
    using srt below by (simp add: sorted_wrt_append)
  show ?thesis unfolding t using a b c d vp by simp
qed

lemma LoadFrames_enough:
  "length (FrameTable fr) = NumPhysPages m \<Longrightarrow> i \<le> NumPhysPages m \<Longrightarrow> idx \<le> np \<Longrightarrow>
   length pt = np \<Longrightarrow> np - idx \<le> freeCount (drop i (FrameTable fr)) \<Longrightarrow>
   \<forall>f\<ge>i. FrameTable fr ! f = ft0 ! f \<Longrightarrow>
   list_all (\<lambda>e. valid e \<and> physicalPage e < i
               \<and> ft0 ! physicalPage e = 1 \<and> FrameTable fr ! physicalPage e = 0) (take idx pt) \<Longrightarrow>
   map virtualPage (take idx pt) = [0..<idx] \<Longrightarrow>
   sorted_wrt (<) (map physicalPage (take idx pt)) \<Longrightarrow>
   \<exists>pt' fr'. LoadFrames m np i idx pt fr = Inr (pt', fr')
      \<and> length pt' = np
      \<and> list_all (\<lambda>e. valid e \<and> physicalPage e < NumPhysPages m
                    \<and> ft0 ! physicalPage e = 1 \<and> FrameTable fr' ! physicalPage e = 0) pt'
      \<and> map virtualPage pt' = [0..<np]
      \<and> sorted_wrt (<) (map physicalPage pt')
      \<and> FreeFrame fr' = FreeFrame fr - int (np - idx)
      \<and> length (FrameTable fr') = NumPhysPages m
      \<and> freeCount (FrameTable fr') + (np - idx) = freeCount (FrameTable fr)"
proof (induction "NumPhysPages m - i" arbitrary: i idx pt fr)
  case 0
  then have i: "i = NumPhysPages m" by simp
  then have "np - idx = 0" using "0.prems"(1,5) by (simp add: freeCount_def)
  then have e: "idx = np" using "0.prems"(3) by simp
  have "LoadFrames m np i idx pt fr = Inr (pt, fr)" using i by (simp add: LoadFrames.simps)
  then show ?case using i e "0.prems"(1,4,7,8,9) by simp
next
  case (Suc k)
  then have lt: "i < NumPhysPages m" by simp
  show ?case
  proof (cases "idx = np")
    case True
    have r: "LoadFrames m np i idx pt fr = Inr (pt, fr)"
      using lt True by (simp add: LoadFrames.simps)
    have "list_all (\<lambda>e. valid e \<and> physicalPage e < NumPhysPages m
                    \<and> ft0 ! physicalPage e = 1 \<and> FrameTable fr ! physicalPage e = 0) pt"
      using Suc.prems(4,7) True lt by (auto simp: list_all_iff)
    then show ?thesis using r True Suc.prems(1,4,8,9) by simp
  next
    case False
    then have idx: "idx < np" using Suc.prems(3) by simp
    have il: "i < length (FrameTable fr)" using lt Suc.prems(1) by simp
    show ?thesis
    proof (cases "FrameTable fr ! i = 1")
      case True
      let ?pt = "pt[idx := \<lparr>virtualPage = idx, physicalPage = i, valid = True, readOnly = False,
                            use = False, dirty = False\<rparr>]"
      let ?fr = "fr\<lparr>FrameTable := (FrameTable fr)[i := 0], FreeFrame := FreeFrame fr - 1\<rparr>"
      have step: "LoadFrames m np i idx pt fr = LoadFrames m np (Suc i) (Suc idx) ?pt ?fr"
        using lt False il True by (subst LoadFrames.simps) simp
      have c: "np - Suc idx \<le> freeCount (drop (Suc i) (FrameTable ?fr))"
        using Suc.prems(5) freeCount_drop [OF il] True by simp
      have s: "\<forall>f\<ge>Suc i. FrameTable ?fr ! f = ft0 ! f"
        using Suc.prems(6) by simp
      have ip: "idx < length pt" using idx Suc.prems(4) by simp
      note fs = frame_step [OF il True Suc.prems(6) ip Suc.prems(7,8,9)]
      have "\<exists>pt' fr'. LoadFrames m np (Suc i) (Suc idx) ?pt ?fr = Inr (pt', fr')
          \<and> length pt' = np
          \<and> list_all (\<lambda>e. valid e \<and> physicalPage e < NumPhysPages m
                        \<and> ft0 ! physicalPage e = 1 \<and> FrameTable fr' ! physicalPage e = 0) pt'
          \<and> map virtualPage pt' = [0..<np]
          \<and> sorted_wrt (<) (map physicalPage pt')
          \<and> FreeFrame fr' = FreeFrame ?fr - int (np - Suc idx)
          \<and> length (FrameTable fr') = NumPhysPages m
          \<and> freeCount (FrameTable fr') + (np - Suc idx) = freeCount (FrameTable ?fr)"
        using Suc.hyps(2) lt idx Suc.prems(1,4) c s fs by (intro Suc.hyps(1)) simp_all
      then obtain pt' fr' where
        r: "LoadFrames m np (Suc i) (Suc idx) ?pt ?fr = Inr (pt', fr')" "length pt' = np"
          "list_all (\<lambda>e. valid e \<and> physicalPage e < NumPhysPages m
                        \<and> ft0 ! physicalPage e = 1 \<and> FrameTable fr' ! physicalPage e = 0) pt'"
          "map virtualPage pt' = [0..<np]"
          "sorted_wrt (<) (map physicalPage pt')"
          "FreeFrame fr' = FreeFrame ?fr - int (np - Suc idx)"
          "length (FrameTable fr') = NumPhysPages m"
          "freeCount (FrameTable fr') + (np - Suc idx) = freeCount (FrameTable ?fr)"
        by blast
      have f1: "FreeFrame fr' = FreeFrame fr - int (np - idx)" using r(6) idx by simp
      have f2: "freeCount (FrameTable fr') + (np - idx) = freeCount (FrameTable fr)"
        using r(8) freeCount_claim [OF il True] idx by simp
      show ?thesis using step r(1,2,3,4,5,7) f1 f2 by simp
    next
      case notfree: False
      have step: "LoadFrames m np i idx pt fr = LoadFrames m np (Suc i) idx pt fr"
        using lt False il notfree by (subst LoadFrames.simps) simp
      have c: "np - idx \<le> freeCount (drop (Suc i) (FrameTable fr))"
        using Suc.prems(5) freeCount_drop [OF il] notfree by simp
      have s: "\<forall>f\<ge>Suc i. FrameTable fr ! f = ft0 ! f"
        using Suc.prems(6) by simp
      have o: "list_all (\<lambda>e. valid e \<and> physicalPage e < Suc i
                  \<and> ft0 ! physicalPage e = 1 \<and> FrameTable fr ! physicalPage e = 0) (take idx pt)"
        using Suc.prems(7) by (auto simp: list_all_iff)
      have "\<exists>pt' fr'. LoadFrames m np (Suc i) idx pt fr = Inr (pt', fr')
          \<and> length pt' = np
          \<and> list_all (\<lambda>e. valid e \<and> physicalPage e < NumPhysPages m
                        \<and> ft0 ! physicalPage e = 1 \<and> FrameTable fr' ! physicalPage e = 0) pt'
          \<and> map virtualPage pt' = [0..<np]
          \<and> sorted_wrt (<) (map physicalPage pt')
          \<and> FreeFrame fr' = FreeFrame fr - int (np - idx)
          \<and> length (FrameTable fr') = NumPhysPages m
          \<and> freeCount (FrameTable fr') + (np - idx) = freeCount (FrameTable fr)"
        using Suc.hyps(2) lt Suc.prems(1,3,4,8,9) c s o by (intro Suc.hyps(1)) simp_all
      then show ?thesis using step by simp
    qed
  qed
qed

lemma Load_never_false:
  "Load m resumes (Some noffH) as fr \<noteq> Inr (Returned False, as', fr')"
  by (auto simp: Load_def Let_def split: sum.splits option.splits prod.splits)

lemma Load_handler_keeps_control:
  assumes "0 < PageSize m" "noffMagic noffH = NOFFMAGIC"
    "FreeFrame fr < int (pagesNeeded m noffH)" "\<not> resumes MemoryLimitException"
  shows "Load m resumes (Some noffH) as fr =
           Inr (Handled MemoryLimitException, as\<lparr>numPages := pagesNeeded m noffH\<rparr>, fr)"
  using assms by (simp add: Load_def Let_def)

lemma Load_exact_fit:
  assumes ps: "0 < PageSize m" and magic: "noffMagic noffH = NOFFMAGIC"
    and eq: "FreeFrame fr = int (pagesNeeded m noffH)"
    and len: "length (FrameTable fr) = NumPhysPages m"
    and inv: "int (freeCount (FrameTable fr)) = FreeFrame fr"
    and fc: "segmentFits m (pagesNeeded m noffH) (code noffH)"
    and fi: "segmentFits m (pagesNeeded m noffH) (initData noffH)"
    and fr: "case readonlyData noffH of None \<Rightarrow> True
             | Some seg \<Rightarrow> segmentFits m (pagesNeeded m noffH) seg"
  shows "\<exists>as' fr'. Load m resumes (Some noffH) as fr = Inr (Returned True, as', fr')
           \<and> FreeFrame fr' = 0 \<and> freeCount (FrameTable fr') = 0
           \<and> length (FrameTable fr') = NumPhysPages m
           \<and> mapped m (FrameTable fr) (FrameTable fr') as'
           \<and> numPages as' = pagesNeeded m noffH"
proof -
  define np where "np = pagesNeeded m noffH"
  let ?as1 = "as\<lparr>numPages := np\<rparr>"
  let ?ft0 = "FrameTable fr"
  have cnt: "freeCount (FrameTable fr) = np" using eq inv by (simp add: np_def)
  have "\<exists>pt' fr'. LoadFrames m np 0 0 (replicate np NewTranslationEntry) fr = Inr (pt', fr')
      \<and> length pt' = np
      \<and> list_all (\<lambda>e. valid e \<and> physicalPage e < NumPhysPages m
                    \<and> ?ft0 ! physicalPage e = 1 \<and> FrameTable fr' ! physicalPage e = 0) pt'
      \<and> map virtualPage pt' = [0..<np]
      \<and> sorted_wrt (<) (map physicalPage pt')
      \<and> FreeFrame fr' = FreeFrame fr - int (np - 0)
      \<and> length (FrameTable fr') = NumPhysPages m
      \<and> freeCount (FrameTable fr') + (np - 0) = freeCount (FrameTable fr)"
    using len cnt by (intro LoadFrames_enough) simp_all
  then obtain pt fr1 where
    F: "LoadFrames m np 0 0 (replicate np NewTranslationEntry) fr = Inr (pt, fr1)"
      "length pt = np"
      "list_all (\<lambda>e. valid e \<and> physicalPage e < NumPhysPages m
                    \<and> ?ft0 ! physicalPage e = 1 \<and> FrameTable fr1 ! physicalPage e = 0) pt"
      "map virtualPage pt = [0..<np]"
      "sorted_wrt (<) (map physicalPage pt)"
      "FreeFrame fr1 = FreeFrame fr - int np"
      "length (FrameTable fr1) = NumPhysPages m"
      "freeCount (FrameTable fr1) + np = freeCount (FrameTable fr)"
    by auto
  let ?ft1 = "FrameTable fr1"
  have z: "FreeFrame fr1 = 0" "freeCount (FrameTable fr1) = 0"
    using F(6,8) eq cnt by (simp_all add: np_def)
  let ?as2 = "?as1\<lparr>pageTable := pt\<rparr>"
  have m2: "mapped m ?ft0 ?ft1 ?as2" "numPages ?as2 = np"
    using F(2,3,4,5) by (simp_all add: mapped_def)
  have "\<exists>as3. LoadCode m resumes noffH ?as2 = Inr (None, as3)
          \<and> mapped m ?ft0 ?ft1 as3 \<and> numPages as3 = np"
  proof (cases "segSize (code noffH) > 0")
    case True
    then have "virtualAddr (code noffH) + segSize (code noffH) \<le> numPages ?as2 * PageSize m"
      using fc by (simp add: segmentFits_def np_def)
    from LoadSegment_fits [OF ps m2(1) this, of resumes True] True
    show ?thesis by (simp add: LoadCode_def)
  next
    case False
    then show ?thesis using m2 by (simp add: LoadCode_def)
  qed
  then obtain as3 where
    C: "LoadCode m resumes noffH ?as2 = Inr (None, as3)" "mapped m ?ft0 ?ft1 as3"
      "numPages as3 = np"
    by auto
  have "\<exists>as4. LoadInitData m resumes noffH as3 = Inr (None, as4)
          \<and> mapped m ?ft0 ?ft1 as4 \<and> numPages as4 = np"
  proof (cases "segSize (initData noffH) > 0")
    case True
    let ?v = "virtualAddr (initData noffH)"
    let ?vpn = "?v div PageSize m"
    let ?a = "as3\<lparr>pageTable := (pageTable as3)[?vpn := (pageTable as3 ! ?vpn)\<lparr>use := True\<rparr>]\<rparr>"
    have fit: "?v + segSize (initData noffH) \<le> np * PageSize m"
      using fi True by (simp add: segmentFits_def np_def)
    then have lt: "?v < numPages as3 * PageSize m" using True C(3) by simp
    then have v: "?vpn < numPages as3" using ps by (simp add: less_mult_imp_div_less)
    have W: "LoadWholeSegment m resumes as3 ?v = Inr (None, ?a)"
      by (simp add: LoadWholeSegment_def Translate_read_mapped [OF ps C(2) lt])
    have ma: "mapped m ?ft0 ?ft1 ?a" by (rule mapped_update_flags [OF C(2) v]) simp_all
    have "?v + segSize (initData noffH) \<le> numPages ?a * PageSize m" using fit C(3) by simp
    from LoadSegment_fits [OF ps ma this, of resumes False] True W C(3)
    show ?thesis by (simp add: LoadInitData_def)
  next
    case False
    then show ?thesis using C by (simp add: LoadInitData_def)
  qed
  then obtain as4 where
    I: "LoadInitData m resumes noffH as3 = Inr (None, as4)" "mapped m ?ft0 ?ft1 as4"
      "numPages as4 = np"
    by auto
  have "\<exists>as5. LoadReadonlyData m resumes noffH as4 = Inr (None, as5)
          \<and> mapped m ?ft0 ?ft1 as5 \<and> numPages as5 = np"
  proof (cases "readonlyData noffH")
    case None
    then show ?thesis using I by (simp add: LoadReadonlyData_def)
  next
    case (Some seg)
    show ?thesis
    proof (cases "segSize seg > 0")
      case True
      then have "virtualAddr seg + segSize seg \<le> numPages as4 * PageSize m"
        using fr Some I(3) by (simp add: segmentFits_def np_def)
      from LoadSegment_fits [OF ps I(2) this, of resumes True] True Some I(3)
      show ?thesis by (simp add: LoadReadonlyData_def)
    next
      case False
      then show ?thesis using I Some by (simp add: LoadReadonlyData_def)
    qed
  qed
  then obtain as5 where
    R: "LoadReadonlyData m resumes noffH as4 = Inr (None, as5)" "mapped m ?ft0 ?ft1 as5"
      "numPages as5 = np"
    by auto
  have "Load m resumes (Some noffH) as fr = Inr (Returned True, as5, fr1)"
    using ps magic eq F(1) C(1) I(1) R(1) by (simp add: Load_def Let_def np_def)
  then show ?thesis using z F(7) R(2,3) by (auto simp: np_def)
qed

text \<open>
  Claim C2, as amended. Let the program need more pages than \<open>FreeFrame\<close> counts
  (\<open>FreeFrame\<close>, a count, not being negative). Then \<open>Load\<close> does not return false, whatever
  the exception handler does; it enters the handler for \<open>MemoryLimitException\<close> before any
  frame is claimed, and when the handler keeps control \<open>Load\<close> ends there with the frame
  table and \<open>FreeFrame\<close> as they were (only \<open>numPages\<close> of the address space has been
  set). Let the program need exactly \<open>FreeFrame\<close> pages, let \<open>FreeFrame\<close> agree with the
  frame table, and let the segments lie inside the address space. Then \<open>Load\<close> returns
  true and every page is mapped: the page table has an entry for each of the pages, entry
  \<open>i\<close> is valid, is that of virtual page \<open>i\<close> and names a frame of the machine that was free
  and is now marked used, no two pages share a frame, and no free frame is left.
\<close>

theorem Load_memory_limit:
  assumes "0 < PageSize m" "noffMagic noffH = NOFFMAGIC"
  shows "(0 \<le> FreeFrame fr \<and> FreeFrame fr < int (pagesNeeded m noffH) \<longrightarrow>
            (\<forall>as' fr'. Load m resumes (Some noffH) as fr \<noteq> Inr (Returned False, as', fr'))
            \<and> (\<not> resumes MemoryLimitException \<longrightarrow>
                 Load m resumes (Some noffH) as fr =
                   Inr (Handled MemoryLimitException, as\<lparr>numPages := pagesNeeded m noffH\<rparr>, fr)))
       \<and> (FreeFrame fr = int (pagesNeeded m noffH)
            \<and> length (FrameTable fr) = NumPhysPages m
            \<and> int (freeCount (FrameTable fr)) = FreeFrame fr
            \<and> segmentFits m (pagesNeeded m noffH) (code noffH)
            \<and> segmentFits m (pagesNeeded m noffH) (initData noffH)
            \<and> (case readonlyData noffH of None \<Rightarrow> True
                | Some seg \<Rightarrow> segmentFits m (pagesNeeded m noffH) seg) \<longrightarrow>
            (\<exists>as' fr'. Load m resumes (Some noffH) as fr = Inr (Returned True, as', fr')
               \<and> FreeFrame fr' = 0 \<and> freeCount (FrameTable fr') = 0
               \<and> length (FrameTable fr') = NumPhysPages m
               \<and> mapped m (FrameTable fr) (FrameTable fr') as'
               \<and> numPages as' = pagesNeeded m noffH))"
  using Load_never_false [of m resumes noffH as fr]
    Load_handler_keeps_control [OF assms, of fr resumes as]
    Load_exact_fit [OF assms, of fr resumes as]
  by blast

theorem Load_memory_limit_witness:
  "0 < PageSize machine_small \<and> noffMagic noff_three_pages = NOFFMAGIC
   \<and> pagesNeeded machine_small noff_three_pages = 3
   \<and> Load machine_small (\<lambda>e. False) (Some noff_three_pages) space_new frames_two_free =
        Inr (Handled MemoryLimitException, space_new\<lparr>numPages := 3\<rparr>, frames_two_free)
   \<and> (\<exists>as' fr'. Load machine_small (\<lambda>e. False) (Some noff_three_pages) space_new frames_three_free
          = Inr (Returned True, as', fr')
        \<and> FreeFrame fr' = 0 \<and> freeCount (FrameTable fr') = 0
        \<and> length (FrameTable fr') = NumPhysPages machine_small
        \<and> mapped machine_small (FrameTable frames_three_free) (FrameTable fr') as'
        \<and> numPages as' = 3)"
proof -
  have h: "0 < PageSize machine_small" "noffMagic noff_three_pages = NOFFMAGIC"
    by (simp_all add: machine_small_def noff_three_pages_def NOFFMAGIC_def)
  have n: "pagesNeeded machine_small noff_three_pages = 3"
    by (simp add: pagesNeeded_def unsigned_int_mod machine_small_def noff_three_pages_def)
  have a: "0 \<le> FreeFrame frames_two_free
           \<and> FreeFrame frames_two_free < int (pagesNeeded machine_small noff_three_pages)"
    by (simp add: n frames_two_free_def)
  have b: "FreeFrame frames_three_free = int (pagesNeeded machine_small noff_three_pages)
            \<and> length (FrameTable frames_three_free) = NumPhysPages machine_small
            \<and> int (freeCount (FrameTable frames_three_free)) = FreeFrame frames_three_free
            \<and> segmentFits machine_small (pagesNeeded machine_small noff_three_pages) (code noff_three_pages)
            \<and> segmentFits machine_small (pagesNeeded machine_small noff_three_pages) (initData noff_three_pages)
            \<and> (case readonlyData noff_three_pages of None \<Rightarrow> True
                | Some seg \<Rightarrow> segmentFits machine_small (pagesNeeded machine_small noff_three_pages) seg)"
    unfolding n
    by (simp add: frames_three_free_def machine_small_def freeCount_def segmentFits_def
        noff_three_pages_def)
  show ?thesis
    using Load_memory_limit [OF h, of frames_two_free "\<lambda>e. False" space_new]
      Load_memory_limit [OF h, of frames_three_free "\<lambda>e. False" space_new]
      h a b n
    by simp
qed

text \<open>
  The load of the witness, run: the three pages go to the frames 0, 2 and 3, the two pages
  of code read-only.
\<close>

lemma Load_three_pages_run:
  "Load machine_small (\<lambda>e. False) (Some noff_three_pages) space_new frames_three_free
     = Inr (Returned True,
            \<lparr>pageTable =
               [\<lparr>virtualPage = 0, physicalPage = 0, valid = True, readOnly = True, use = True, dirty = False\<rparr>,
                \<lparr>virtualPage = 1, physicalPage = 2, valid = True, readOnly = True, use = True, dirty = False\<rparr>,
                \<lparr>virtualPage = 2, physicalPage = 3, valid = True, readOnly = False, use = False, dirty = False\<rparr>],
             numPages = 3\<rparr>,
            \<lparr>FrameTable = [0, 0, 0, 0], FreeFrame = 0\<rparr>)
   \<and> \<not> mapped machine_small (FrameTable frames_three_free) [0, 0, 0, 0]
         \<lparr>pageTable = replicate 3 NewTranslationEntry, numPages = 3\<rparr>"
  by code_simp

text \<open>
  The claim as it was written fails: with two free frames and a program of three pages,
  \<open>Load\<close> does not return false. When the handler keeps control nothing is returned at
  all; when the handler gives control back, \<open>Load\<close> goes on, claims both free frames for
  the first two pages and returns true. And with exactly three free frames the load does
  not succeed when a segment lies outside the three pages: the copy loop enters the
  handler for \<open>AddressErrorException\<close>.
\<close>

theorem Load_over_limit_not_false:
  "FreeFrame frames_two_free < int (pagesNeeded machine_small noff_three_pages)
   \<and> Load machine_small (\<lambda>e. False) (Some noff_three_pages) space_new frames_two_free
       = Inr (Handled MemoryLimitException, space_new\<lparr>numPages := 3\<rparr>, frames_two_free)
   \<and> (case Load machine_small (\<lambda>e. True) (Some noff_three_pages) space_new frames_two_free of
         Inl e \<Rightarrow> False
       | Inr (r, as', fr') \<Rightarrow>
           r = Returned True \<and> fr' = \<lparr>FrameTable = [0, 0, 0, 0], FreeFrame = 0\<rparr>
           \<and> take 2 (pageTable as') =
               [\<lparr>virtualPage = 0, physicalPage = 0, valid = True, readOnly = True, use = True, dirty = False\<rparr>,
                \<lparr>virtualPage = 1, physicalPage = 2, valid = True, readOnly = True, use = True, dirty = False\<rparr>])
   \<and> FreeFrame frames_three_free = int (pagesNeeded machine_small noff_code_outside)
   \<and> (case Load machine_small (\<lambda>e. False) (Some noff_code_outside) space_new frames_three_free of
         Inl e \<Rightarrow> False
       | Inr (r, as', fr') \<Rightarrow> r = Handled AddressErrorException)"
  by code_simp

section \<open>Properties of the scheduler\<close>

subsection \<open>Choosing the next thread\<close>

lemma ScheduleNext_one:
  assumes "interruptsOff k"
  shows "(L1 k \<noteq> [] \<longrightarrow> ScheduleNext k = Inr (Some (hd (L1 k)), k\<lparr>L1 := tl (L1 k)\<rparr>))
       \<and> (L1 k = [] \<and> L2 k \<noteq> [] \<longrightarrow> ScheduleNext k = Inr (Some (hd (L2 k)), k\<lparr>L2 := tl (L2 k)\<rparr>))
       \<and> (L1 k = [] \<and> L2 k = [] \<and> L3 k \<noteq> [] \<longrightarrow>
            ScheduleNext k = Inr (Some (hd (L3 k)), k\<lparr>L3 := tl (L3 k)\<rparr>))
       \<and> (L1 k = [] \<and> L2 k = [] \<and> L3 k = [] \<longrightarrow> ScheduleNext k = Inr (None, k))"
  using assms by (simp add: ScheduleNext_def)

lemma drain_L3:
  "interruptsOff k \<Longrightarrow> L1 k = [] \<Longrightarrow> L2 k = [] \<Longrightarrow> L3 k = xs \<Longrightarrow>
   ScheduleNext_times (length xs) k = Inr (map Some xs, k\<lparr>L3 := []\<rparr>)"
proof (induction xs arbitrary: k)
  case Nil
  then show ?case by simp
next
  case (Cons x xs)
  have "ScheduleNext k = Inr (Some x, k\<lparr>L3 := xs\<rparr>)"
    using Cons.prems by (simp add: ScheduleNext_def)
  moreover have "ScheduleNext_times (length xs) (k\<lparr>L3 := xs\<rparr>) = Inr (map Some xs, k\<lparr>L3 := xs, L3 := []\<rparr>)"
    using Cons.prems by (intro Cons.IH) simp_all
  ultimately show ?case by simp
qed

lemma drain_L2:
  "interruptsOff k \<Longrightarrow> L1 k = [] \<Longrightarrow> L2 k = xs \<Longrightarrow>
   ScheduleNext_times (length xs + length (L3 k)) k = Inr (map Some (xs @ L3 k), k\<lparr>L2 := [], L3 := []\<rparr>)"
proof (induction xs arbitrary: k)
  case Nil
  then show ?case using drain_L3 [of k "L3 k"] by simp
next
  case (Cons x xs)
  have "ScheduleNext k = Inr (Some x, k\<lparr>L2 := xs\<rparr>)"
    using Cons.prems by (simp add: ScheduleNext_def)
  moreover have "ScheduleNext_times (length xs + length (L3 (k\<lparr>L2 := xs\<rparr>))) (k\<lparr>L2 := xs\<rparr>)
      = Inr (map Some (xs @ L3 (k\<lparr>L2 := xs\<rparr>)), k\<lparr>L2 := xs, L2 := [], L3 := []\<rparr>)"
    using Cons.prems by (intro Cons.IH) simp_all
  ultimately show ?case by simp
qed

lemma drain_L1:
  "interruptsOff k \<Longrightarrow> L1 k = xs \<Longrightarrow>
   ScheduleNext_times (length xs + length (L2 k) + length (L3 k)) k
     = Inr (map Some (xs @ L2 k @ L3 k), k\<lparr>L1 := [], L2 := [], L3 := []\<rparr>)"
proof (induction xs arbitrary: k)
  case Nil
  then show ?case using drain_L2 [of k "L2 k"] by simp
next
  case (Cons x xs)
  have "ScheduleNext k = Inr (Some x, k\<lparr>L1 := xs\<rparr>)"
    using Cons.prems by (simp add: ScheduleNext_def)
  moreover have "ScheduleNext_times (length xs + length (L2 (k\<lparr>L1 := xs\<rparr>)) + length (L3 (k\<lparr>L1 := xs\<rparr>))) (k\<lparr>L1 := xs\<rparr>)
      = Inr (map Some (xs @ L2 (k\<lparr>L1 := xs\<rparr>) @ L3 (k\<lparr>L1 := xs\<rparr>)), k\<lparr>L1 := xs, L1 := [], L2 := [], L3 := []\<rparr>)"
    using Cons.prems by (intro Cons.IH) simp_all
  ultimately show ?case by simp
qed



lemma set_Insert: "set (Insert cmp h t xs) = insert t (set xs)"
  by (induction xs) auto

lemma length_Insert: "length (Insert cmp h t xs) = Suc (length xs)"
  by (induction xs) auto

lemma PutToReady_effect:
  assumes "interruptsOff k"
  shows "\<exists>k1. PutToReady t k = Inr k1 \<and> interruptsOff k1
      \<and> (\<forall>u. priority (threads k1 u) = priority (threads k u))
      \<and> set (L1 k1) = set (L1 k) \<union> {u. u = t \<and> 100 \<le> priority (threads k t)}
      \<and> length (L1 k1) = length (L1 k) + (if 100 \<le> priority (threads k t) then 1 else 0)
      \<and> set (L2 k1) = set (L2 k) \<union> {u. u = t \<and> 50 \<le> priority (threads k t) \<and> priority (threads k t) < 100}
      \<and> length (L2 k1) = length (L2 k) + (if 50 \<le> priority (threads k t) \<and> priority (threads k t) < 100 then 1 else 0)
      \<and> set (L3 k1) = set (L3 k) \<union> {u. u = t \<and> priority (threads k t) < 50}
      \<and> length (L3 k1) = length (L3 k) + (if priority (threads k t) < 50 then 1 else 0)"
  using assms
  by (auto simp: PutToReady_def StartReady_def WhichQueue_def Let_def set_Insert length_Insert)


lemma PutToReady_all_effect:
  "interruptsOff k \<Longrightarrow>
   \<exists>k1. PutToReady_all xs k = Inr k1 \<and> interruptsOff k1
      \<and> (\<forall>u. priority (threads k1 u) = priority (threads k u))
      \<and> set (L1 k1) = set (L1 k) \<union> {u \<in> set xs. 100 \<le> priority (threads k u)}
      \<and> length (L1 k1) = length (L1 k) + length (filter (\<lambda>u. 100 \<le> priority (threads k u)) xs)
      \<and> set (L2 k1) = set (L2 k) \<union> {u \<in> set xs. 50 \<le> priority (threads k u) \<and> priority (threads k u) < 100}
      \<and> length (L2 k1) = length (L2 k)
            + length (filter (\<lambda>u. 50 \<le> priority (threads k u) \<and> priority (threads k u) < 100) xs)
      \<and> set (L3 k1) = set (L3 k) \<union> {u \<in> set xs. priority (threads k u) < 50}
      \<and> length (L3 k1) = length (L3 k) + length (filter (\<lambda>u. priority (threads k u) < 50) xs)"
proof (induction xs arbitrary: k)
  case Nil
  then show ?case by simp
next
  case (Cons t ts)
  from PutToReady_effect [OF Cons.prems, of t] obtain k1 where
    k1: "PutToReady t k = Inr k1" "interruptsOff k1"
      "\<forall>u. priority (threads k1 u) = priority (threads k u)"
      "set (L1 k1) = set (L1 k) \<union> {u. u = t \<and> 100 \<le> priority (threads k t)}"
      "length (L1 k1) = length (L1 k) + (if 100 \<le> priority (threads k t) then 1 else 0)"
      "set (L2 k1) = set (L2 k) \<union> {u. u = t \<and> 50 \<le> priority (threads k t) \<and> priority (threads k t) < 100}"
      "length (L2 k1) = length (L2 k) + (if 50 \<le> priority (threads k t) \<and> priority (threads k t) < 100 then 1 else 0)"
      "set (L3 k1) = set (L3 k) \<union> {u. u = t \<and> priority (threads k t) < 50}"
      "length (L3 k1) = length (L3 k) + (if priority (threads k t) < 50 then 1 else 0)"
    by blast
  from Cons.IH [OF k1(2)] obtain k2 where
    k2: "PutToReady_all ts k1 = Inr k2" "interruptsOff k2"
      "\<forall>u. priority (threads k2 u) = priority (threads k1 u)"
      "set (L1 k2) = set (L1 k1) \<union> {u \<in> set ts. 100 \<le> priority (threads k1 u)}"
      "length (L1 k2) = length (L1 k1) + length (filter (\<lambda>u. 100 \<le> priority (threads k1 u)) ts)"
      "set (L2 k2) = set (L2 k1) \<union> {u \<in> set ts. 50 \<le> priority (threads k1 u) \<and> priority (threads k1 u) < 100}"
      "length (L2 k2) = length (L2 k1)
            + length (filter (\<lambda>u. 50 \<le> priority (threads k1 u) \<and> priority (threads k1 u) < 100) ts)"
      "set (L3 k2) = set (L3 k1) \<union> {u \<in> set ts. priority (threads k1 u) < 50}"
      "length (L3 k2) = length (L3 k1) + length (filter (\<lambda>u. priority (threads k1 u) < 50) ts)"
    by blast
  have "PutToReady_all (t # ts) k = Inr k2" using k1(1) k2(1) by simp
  moreover have "\<forall>u. priority (threads k2 u) = priority (threads k u)" using k1(3) k2(3) by simp
  moreover have "set (L1 k2) = set (L1 k) \<union> {u \<in> set (t # ts). 100 \<le> priority (threads k u)}"
    using k1(3,4) k2(4) by auto
  moreover have "length (L1 k2) = length (L1 k) + length (filter (\<lambda>u. 100 \<le> priority (threads k u)) (t # ts))"
    using k1(3,5) k2(5) by simp
  moreover have "set (L2 k2) = set (L2 k) \<union> {u \<in> set (t # ts). 50 \<le> priority (threads k u) \<and> priority (threads k u) < 100}"
    using k1(3,6) k2(6) by auto
  moreover have "length (L2 k2) = length (L2 k)
            + length (filter (\<lambda>u. 50 \<le> priority (threads k u) \<and> priority (threads k u) < 100) (t # ts))"
    using k1(3,7) k2(7) by simp
  moreover have "set (L3 k2) = set (L3 k) \<union> {u \<in> set (t # ts). priority (threads k u) < 50}"
    using k1(3,8) k2(8) by auto
  moreover have "length (L3 k2) = length (L3 k) + length (filter (\<lambda>u. priority (threads k u) < 50) (t # ts))"
    using k1(3,9) k2(9) by simp
  ultimately show ?case using k2(2) by blast
qed

lemma singleton_list: "length ys = 1 \<Longrightarrow> set ys = {y} \<Longrightarrow> ys = [y]"
  by (cases ys) auto

lemma length_filter_single:
  "distinct xs \<Longrightarrow> {u \<in> set xs. P u} = {y} \<Longrightarrow> length (filter P xs) = 1"
proof -
  assume d: "distinct xs" and s: "{u \<in> set xs. P u} = {y}"
  have "distinct (filter P xs)" using d by simp
  then have "length (filter P xs) = card (set (filter P xs))" by (rule distinct_card [symmetric])
  also have "set (filter P xs) = {y}" using s by auto
  finally show ?thesis by simp
qed

lemma three_ready:
  assumes "interruptsOff k" "L1 k = []" "L2 k = []" "L3 k = []"
    and "distinct xs" "set xs = {a, b, c}"
    and "priority (threads k a) = 120" "priority (threads k b) = 70" "priority (threads k c) = 20"
  shows "\<exists>k1. PutToReady_all xs k = Inr k1 \<and> L1 k1 = [a] \<and> L2 k1 = [b] \<and> L3 k1 = [c] \<and> interruptsOff k1"
proof -
  from PutToReady_all_effect [OF assms(1), of xs] obtain k1 where
    k1: "PutToReady_all xs k = Inr k1" "interruptsOff k1"
      "set (L1 k1) = set (L1 k) \<union> {u \<in> set xs. 100 \<le> priority (threads k u)}"
      "length (L1 k1) = length (L1 k) + length (filter (\<lambda>u. 100 \<le> priority (threads k u)) xs)"
      "set (L2 k1) = set (L2 k) \<union> {u \<in> set xs. 50 \<le> priority (threads k u) \<and> priority (threads k u) < 100}"
      "length (L2 k1) = length (L2 k)
            + length (filter (\<lambda>u. 50 \<le> priority (threads k u) \<and> priority (threads k u) < 100) xs)"
      "set (L3 k1) = set (L3 k) \<union> {u \<in> set xs. priority (threads k u) < 50}"
      "length (L3 k1) = length (L3 k) + length (filter (\<lambda>u. priority (threads k u) < 50) xs)"
    by blast
  have s1: "{u \<in> set xs. 100 \<le> priority (threads k u)} = {a}"
    using assms(6-9) by auto
  have s2: "{u \<in> set xs. 50 \<le> priority (threads k u) \<and> priority (threads k u) < 100} = {b}"
    using assms(6-9) by auto
  have s3: "{u \<in> set xs. priority (threads k u) < 50} = {c}"
    using assms(6-9) by auto
  have "L1 k1 = [a]"
    using k1(3,4) assms(2) s1 length_filter_single [OF assms(5) s1] by (intro singleton_list) simp_all
  moreover have "L2 k1 = [b]"
    using k1(5,6) assms(3) s2 length_filter_single [OF assms(5) s2] by (intro singleton_list) simp_all
  moreover have "L3 k1 = [c]"
    using k1(7,8) assms(4) s3 length_filter_single [OF assms(5) s3] by (intro singleton_list) simp_all
  ultimately show ?thesis using k1(1,2) by blast
qed


text \<open>
  Claim C5. With interrupts off, \<open>ScheduleNext\<close> removes and returns the front of L1 when
  L1 is not empty, else the front of L2, else the front of L3, else it returns \<open>NULL\<close> and
  changes nothing. Called once per waiting thread it therefore hands out all of L1, then
  all of L2, then all of L3. Three threads of priorities 120, 70 and 20 that are put to
  ready in any order on empty queues come back in the order 120, 70, 20, and the fourth
  call returns \<open>NULL\<close>.
\<close>

theorem ScheduleNext_level_order:
  assumes "interruptsOff k"
  shows "(L1 k \<noteq> [] \<longrightarrow> ScheduleNext k = Inr (Some (hd (L1 k)), k\<lparr>L1 := tl (L1 k)\<rparr>))
       \<and> (L1 k = [] \<and> L2 k \<noteq> [] \<longrightarrow> ScheduleNext k = Inr (Some (hd (L2 k)), k\<lparr>L2 := tl (L2 k)\<rparr>))
       \<and> (L1 k = [] \<and> L2 k = [] \<and> L3 k \<noteq> [] \<longrightarrow>
            ScheduleNext k = Inr (Some (hd (L3 k)), k\<lparr>L3 := tl (L3 k)\<rparr>))
       \<and> (L1 k = [] \<and> L2 k = [] \<and> L3 k = [] \<longrightarrow> ScheduleNext k = Inr (None, k))
       \<and> ScheduleNext_times (length (L1 k) + length (L2 k) + length (L3 k)) k
            = Inr (map Some (L1 k @ L2 k @ L3 k), k\<lparr>L1 := [], L2 := [], L3 := []\<rparr>)
       \<and> (L1 k = [] \<and> L2 k = [] \<and> L3 k = [] \<and> distinct xs \<and> set xs = {a, b, c}
            \<and> priority (threads k a) = 120 \<and> priority (threads k b) = 70
            \<and> priority (threads k c) = 20 \<longrightarrow>
            (\<exists>k1 k2. PutToReady_all xs k = Inr k1
               \<and> ScheduleNext_times 3 k1 = Inr ([Some a, Some b, Some c], k2)
               \<and> ScheduleNext k2 = Inr (None, k2)))"
proof -
  have one: "(L1 k \<noteq> [] \<longrightarrow> ScheduleNext k = Inr (Some (hd (L1 k)), k\<lparr>L1 := tl (L1 k)\<rparr>))
       \<and> (L1 k = [] \<and> L2 k \<noteq> [] \<longrightarrow> ScheduleNext k = Inr (Some (hd (L2 k)), k\<lparr>L2 := tl (L2 k)\<rparr>))
       \<and> (L1 k = [] \<and> L2 k = [] \<and> L3 k \<noteq> [] \<longrightarrow>
            ScheduleNext k = Inr (Some (hd (L3 k)), k\<lparr>L3 := tl (L3 k)\<rparr>))
       \<and> (L1 k = [] \<and> L2 k = [] \<and> L3 k = [] \<longrightarrow> ScheduleNext k = Inr (None, k))"
    by (rule ScheduleNext_one [OF assms])
  have drain: "ScheduleNext_times (length (L1 k) + length (L2 k) + length (L3 k)) k
            = Inr (map Some (L1 k @ L2 k @ L3 k), k\<lparr>L1 := [], L2 := [], L3 := []\<rparr>)"
    by (rule drain_L1 [OF assms refl])
  have ex: "\<exists>k1 k2. PutToReady_all xs k = Inr k1
               \<and> ScheduleNext_times 3 k1 = Inr ([Some a, Some b, Some c], k2)
               \<and> ScheduleNext k2 = Inr (None, k2)"
    if h: "L1 k = [] \<and> L2 k = [] \<and> L3 k = [] \<and> distinct xs \<and> set xs = {a, b, c}
            \<and> priority (threads k a) = 120 \<and> priority (threads k b) = 70
            \<and> priority (threads k c) = 20"
  proof -
    from three_ready [OF assms, of xs a b c] h obtain k1 where
      k1: "PutToReady_all xs k = Inr k1" "L1 k1 = [a]" "L2 k1 = [b]" "L3 k1 = [c]" "interruptsOff k1"
      by blast
    let ?k2 = "k1\<lparr>L1 := [], L2 := [], L3 := []\<rparr>"
    have "ScheduleNext_times (length (L1 k1) + length (L2 k1) + length (L3 k1)) k1
            = Inr (map Some (L1 k1 @ L2 k1 @ L3 k1), ?k2)"
      by (rule drain_L1 [OF k1(5) refl])
    moreover have "length (L1 k1) + length (L2 k1) + length (L3 k1) = 3"
      using k1(2-4) by simp
    ultimately have "ScheduleNext_times 3 k1 = Inr ([Some a, Some b, Some c], ?k2)"
      using k1(2-4) by (simp del: ScheduleNext_times.simps add: numeral_3_eq_3)
    moreover have "ScheduleNext ?k2 = Inr (None, ?k2)"
      using k1(5) by (simp add: ScheduleNext_def)
    ultimately show ?thesis using k1(1) by blast
  qed
  show ?thesis using one drain ex by blast
qed

theorem ScheduleNext_level_order_witness:
  "interruptsOff kernel_three
   \<and> ScheduleNext kernel_three = Inr (None, kernel_three)
   \<and> (\<exists>k1 k2. PutToReady_all [3, 1, 2] kernel_three = Inr k1
         \<and> ScheduleNext_times 3 k1 = Inr ([Some 1, Some 2, Some 3], k2)
         \<and> ScheduleNext k2 = Inr (None, k2))"
proof -
  have h: "interruptsOff kernel_three" by (simp add: kernel_three_def)
  have e: "L1 kernel_three = [] \<and> L2 kernel_three = [] \<and> L3 kernel_three = []
      \<and> distinct [3, 1, 2 :: nat] \<and> set [3, 1, 2 :: nat] = {1, 2, 3}
      \<and> priority (threads kernel_three 1) = 120 \<and> priority (threads kernel_three 2) = 70
      \<and> priority (threads kernel_three 3) = 20"
    by (auto simp: kernel_three_def mkThread_def)
  show ?thesis
    using ScheduleNext_level_order [OF h, of "[3, 1, 2]" 1 2 3] h e by blast
qed

subsection \<open>The preemption check\<close>

text \<open>
  Claim C3. The current thread is in band 1 (priority 120) and L1 is empty: no
  \<open>return\<close> statement is reached, so the call does not return \<open>false\<close>.
\<close>

theorem CheckPreempt_L1_empty_no_return:
  "WhichQueue (threads kernel_alone (currentThread kernel_alone)) = 1
   \<and> L1 kernel_alone = []
   \<and> CheckPreempt kernel_alone = Inl NoReturnValue
   \<and> CheckPreempt kernel_alone \<noteq> Inr False"
  by (simp add: CheckPreempt_def kernel_alone_def mkThread_def WhichQueue_def)

lemma CheckPreempt_returning_branches:
  "CheckPreempt k =
     (let cur = threads k (currentThread k)
      in if 100 \<le> priority cur
         then (if L1 k = [] then Inl NoReturnValue
               else Inr (remain_burst (threads k (hd (L1 k))) < remain_burst cur))
         else if 50 \<le> priority cur then Inr (L1 k \<noteq> [])
         else Inr (L3 k \<noteq> []))"
  by (simp add: CheckPreempt_def WhichQueue_def Let_def)


subsection \<open>Aging\<close>

lemma AgingL1_item_eq:
  "AgingL1_item t k = k\<lparr>threads := (threads k)(t := aged_saturating (totalTicks k) (threads k t))\<rparr>"
  by (simp add: AgingL1_item_def aged_saturating_def Let_def)

lemma AgingL2_item_eq:
  "AgingL2_item t k =
     (if promoted 100 (totalTicks k) (threads k t)
      then k\<lparr>threads := (threads k)(t := aged_plain (totalTicks k) (threads k t)),
             L1 := Insert comp_L1 ((threads k)(t := aged_plain (totalTicks k) (threads k t))) t (L1 k),
             L2 := remove1 t (L2 k)\<rparr>
      else k\<lparr>threads := (threads k)(t := aged_plain (totalTicks k) (threads k t))\<rparr>)"
  by (simp add: AgingL2_item_def aged_plain_def promoted_def Let_def)

lemma AgingL3_item_eq:
  "AgingL3_item t k =
     (if promoted 50 (totalTicks k) (threads k t)
      then k\<lparr>threads := (threads k)(t := aged_plain (totalTicks k) (threads k t)),
             L2 := Insert comp_L2 ((threads k)(t := aged_plain (totalTicks k) (threads k t))) t (L2 k),
             L3 := remove1 t (L3 k)\<rparr>
      else k\<lparr>threads := (threads k)(t := aged_plain (totalTicks k) (threads k t))\<rparr>)"
  by (simp add: AgingL3_item_def aged_plain_def promoted_def Let_def)

lemma AgingL1_loop_effect:
  "distinct ts \<Longrightarrow>
   AgingL1_loop ts k =
     k\<lparr>threads := (\<lambda>u. if u \<in> set ts then aged_saturating (totalTicks k) (threads k u)
                          else threads k u)\<rparr>"
proof (induction ts arbitrary: k)
  case Nil
  then show ?case by simp
next
  case (Cons t ts)
  have "AgingL1_loop (t # ts) k = AgingL1_loop ts (AgingL1_item t k)" by simp
  also have "\<dots> = (AgingL1_item t k)\<lparr>threads := (\<lambda>u. if u \<in> set ts
        then aged_saturating (totalTicks (AgingL1_item t k)) (threads (AgingL1_item t k) u)
        else threads (AgingL1_item t k) u)\<rparr>"
    using Cons.prems by (intro Cons.IH) simp
  also have "\<dots> = k\<lparr>threads := (\<lambda>u. if u \<in> set (t # ts)
        then aged_saturating (totalTicks k) (threads k u) else threads k u)\<rparr>"
    using Cons.prems by (auto simp: AgingL1_item_eq fun_eq_iff)
  finally show ?case .
qed

lemma AgingL2_loop_effect:
  "distinct ts \<Longrightarrow> distinct (L2 k) \<Longrightarrow>
   totalTicks (AgingL2_loop ts k) = totalTicks k
   \<and> L3 (AgingL2_loop ts k) = L3 k
   \<and> (\<forall>u. threads (AgingL2_loop ts k) u =
          (if u \<in> set ts then aged_plain (totalTicks k) (threads k u) else threads k u))
   \<and> set (L1 (AgingL2_loop ts k)) =
        set (L1 k) \<union> {u \<in> set ts. promoted 100 (totalTicks k) (threads k u)}
   \<and> set (L2 (AgingL2_loop ts k)) =
        set (L2 k) - {u \<in> set ts. promoted 100 (totalTicks k) (threads k u)}
   \<and> distinct (L2 (AgingL2_loop ts k))"
proof (induction ts arbitrary: k)
  case Nil
  then show ?case by simp
next
  case (Cons t ts)
  let ?k1 = "AgingL2_item t k"
  have k1: "totalTicks ?k1 = totalTicks k" "L3 ?k1 = L3 k"
    "\<forall>u. threads ?k1 u = (if u = t then aged_plain (totalTicks k) (threads k t) else threads k u)"
    "set (L1 ?k1) = set (L1 k) \<union> {u. u = t \<and> promoted 100 (totalTicks k) (threads k t)}"
    "set (L2 ?k1) = set (L2 k) - {u. u = t \<and> promoted 100 (totalTicks k) (threads k t)}"
    "distinct (L2 ?k1)"
    using Cons.prems(2) by (auto simp: AgingL2_item_eq set_Insert)
  have d: "distinct ts" "t \<notin> set ts" using Cons.prems(1) by simp_all
  note ih = Cons.IH [OF d(1) k1(6)]
  have "totalTicks (AgingL2_loop (t # ts) k) = totalTicks k" using ih k1(1) by simp
  moreover have "L3 (AgingL2_loop (t # ts) k) = L3 k" using ih k1(2) by simp
  moreover have "\<forall>u. threads (AgingL2_loop (t # ts) k) u =
          (if u \<in> set (t # ts) then aged_plain (totalTicks k) (threads k u) else threads k u)"
    using ih k1(1,3) d(2) by auto
  moreover have "set (L1 (AgingL2_loop (t # ts) k)) =
        set (L1 k) \<union> {u \<in> set (t # ts). promoted 100 (totalTicks k) (threads k u)}"
    using ih k1(1,3,4) d(2) by auto
  moreover have "set (L2 (AgingL2_loop (t # ts) k)) =
        set (L2 k) - {u \<in> set (t # ts). promoted 100 (totalTicks k) (threads k u)}"
    using ih k1(1,3,5) d(2) by auto
  moreover have "distinct (L2 (AgingL2_loop (t # ts) k))" using ih by simp
  ultimately show ?case by blast
qed

lemma AgingL3_loop_effect:
  "distinct ts \<Longrightarrow> distinct (L3 k) \<Longrightarrow>
   totalTicks (AgingL3_loop ts k) = totalTicks k
   \<and> L1 (AgingL3_loop ts k) = L1 k
   \<and> (\<forall>u. threads (AgingL3_loop ts k) u =
          (if u \<in> set ts then aged_plain (totalTicks k) (threads k u) else threads k u))
   \<and> set (L2 (AgingL3_loop ts k)) =
        set (L2 k) \<union> {u \<in> set ts. promoted 50 (totalTicks k) (threads k u)}
   \<and> set (L3 (AgingL3_loop ts k)) =
        set (L3 k) - {u \<in> set ts. promoted 50 (totalTicks k) (threads k u)}
   \<and> distinct (L3 (AgingL3_loop ts k))"
proof (induction ts arbitrary: k)
  case Nil
  then show ?case by simp
next
  case (Cons t ts)
  let ?k1 = "AgingL3_item t k"
  have k1: "totalTicks ?k1 = totalTicks k" "L1 ?k1 = L1 k"
    "\<forall>u. threads ?k1 u = (if u = t then aged_plain (totalTicks k) (threads k t) else threads k u)"
    "set (L2 ?k1) = set (L2 k) \<union> {u. u = t \<and> promoted 50 (totalTicks k) (threads k t)}"
    "set (L3 ?k1) = set (L3 k) - {u. u = t \<and> promoted 50 (totalTicks k) (threads k t)}"
    "distinct (L3 ?k1)"
    using Cons.prems(2) by (auto simp: AgingL3_item_eq set_Insert)
  have d: "distinct ts" "t \<notin> set ts" using Cons.prems(1) by simp_all
  note ih = Cons.IH [OF d(1) k1(6)]
  have "totalTicks (AgingL3_loop (t # ts) k) = totalTicks k" using ih k1(1) by simp
  moreover have "L1 (AgingL3_loop (t # ts) k) = L1 k" using ih k1(2) by simp
  moreover have "\<forall>u. threads (AgingL3_loop (t # ts) k) u =
          (if u \<in> set (t # ts) then aged_plain (totalTicks k) (threads k u) else threads k u)"
    using ih k1(1,3) d(2) by auto
  moreover have "set (L2 (AgingL3_loop (t # ts) k)) =
        set (L2 k) \<union> {u \<in> set (t # ts). promoted 50 (totalTicks k) (threads k u)}"
    using ih k1(1,3,4) d(2) by auto
  moreover have "set (L3 (AgingL3_loop (t # ts) k)) =
        set (L3 k) - {u \<in> set (t # ts). promoted 50 (totalTicks k) (threads k u)}"
    using ih k1(1,3,5) d(2) by auto
  moreover have "distinct (L3 (AgingL3_loop (t # ts) k))" using ih by simp
  ultimately show ?case by blast
qed


lemma Aging_summary:
  assumes "distinct (L1 k @ L2 k @ L3 k)"
  shows "(\<forall>u. threads (Aging k) u =
            (if u \<in> set (L1 k) then aged_saturating (totalTicks k) (threads k u)
             else if u \<in> set (L2 k) \<or> u \<in> set (L3 k) then aged_plain (totalTicks k) (threads k u)
             else threads k u))
       \<and> set (L1 (Aging k)) =
            set (L1 k) \<union> {u \<in> set (L2 k). promoted 100 (totalTicks k) (threads k u)}
       \<and> set (L2 (Aging k)) =
            (set (L2 k) - {u \<in> set (L2 k). promoted 100 (totalTicks k) (threads k u)})
            \<union> {u \<in> set (L3 k). promoted 50 (totalTicks k) (threads k u)}
       \<and> set (L3 (Aging k)) =
            set (L3 k) - {u \<in> set (L3 k). promoted 50 (totalTicks k) (threads k u)}"
proof -
  define k1 where "k1 = AgingL1_loop (L1 k) k"
  define k2 where "k2 = AgingL2_loop (L2 k1) k1"
  define k3 where "k3 = AgingL3_loop (L3 k2) k2"
  have A: "Aging k = k3" by (simp add: Aging_def k1_def k2_def k3_def Let_def)
  have d: "distinct (L1 k)" "distinct (L2 k)" "distinct (L3 k)"
    "set (L1 k) \<inter> set (L2 k) = {}" "set (L1 k) \<inter> set (L3 k) = {}" "set (L2 k) \<inter> set (L3 k) = {}"
    using assms by auto
  have e1: "k1 = k\<lparr>threads := (\<lambda>u. if u \<in> set (L1 k)
        then aged_saturating (totalTicks k) (threads k u) else threads k u)\<rparr>"
    unfolding k1_def by (rule AgingL1_loop_effect [OF d(1)])
  have q1: "L1 k1 = L1 k" "L2 k1 = L2 k" "L3 k1 = L3 k" "totalTicks k1 = totalTicks k"
    and t1: "\<forall>u. threads k1 u = (if u \<in> set (L1 k)
        then aged_saturating (totalTicks k) (threads k u) else threads k u)"
    by (simp_all add: e1)
  have e2: "totalTicks k2 = totalTicks k1" "L3 k2 = L3 k1"
    "\<forall>u. threads k2 u = (if u \<in> set (L2 k1) then aged_plain (totalTicks k1) (threads k1 u) else threads k1 u)"
    "set (L1 k2) = set (L1 k1) \<union> {u \<in> set (L2 k1). promoted 100 (totalTicks k1) (threads k1 u)}"
    "set (L2 k2) = set (L2 k1) - {u \<in> set (L2 k1). promoted 100 (totalTicks k1) (threads k1 u)}"
    using AgingL2_loop_effect [of "L2 k1" k1] d(2) q1(2) unfolding k2_def by simp_all
  have e3: "L1 k3 = L1 k2"
    "\<forall>u. threads k3 u = (if u \<in> set (L3 k2) then aged_plain (totalTicks k2) (threads k2 u) else threads k2 u)"
    "set (L2 k3) = set (L2 k2) \<union> {u \<in> set (L3 k2). promoted 50 (totalTicks k2) (threads k2 u)}"
    "set (L3 k3) = set (L3 k2) - {u \<in> set (L3 k2). promoted 50 (totalTicks k2) (threads k2 u)}"
    using AgingL3_loop_effect [of "L3 k2" k2] d(3) q1(3) e2(2) unfolding k3_def by simp_all
  have n2: "threads k1 u = threads k u" if "u \<in> set (L2 k)" for u
    using that d(4) t1 by auto
  have n3: "threads k2 u = threads k u" if "u \<in> set (L3 k)" for u
    using that d(5,6) t1 e2(3) q1(2) by auto
  have T: "\<forall>u. threads k3 u =
            (if u \<in> set (L1 k) then aged_saturating (totalTicks k) (threads k u)
             else if u \<in> set (L2 k) \<or> u \<in> set (L3 k) then aged_plain (totalTicks k) (threads k u)
             else threads k u)"
  proof
    fix u
    show "threads k3 u =
            (if u \<in> set (L1 k) then aged_saturating (totalTicks k) (threads k u)
             else if u \<in> set (L2 k) \<or> u \<in> set (L3 k) then aged_plain (totalTicks k) (threads k u)
             else threads k u)"
      using e3(2) e2(1,2,3) q1 t1 d(4,5,6) n2 [of u] n3 [of u] by auto
  qed
  have Q1: "set (L1 k3) = set (L1 k) \<union> {u \<in> set (L2 k). promoted 100 (totalTicks k) (threads k u)}"
    using e3(1) e2(4) q1 n2 by auto
  have Q2: "set (L2 k3) = (set (L2 k) - {u \<in> set (L2 k). promoted 100 (totalTicks k) (threads k u)})
            \<union> {u \<in> set (L3 k). promoted 50 (totalTicks k) (threads k u)}"
    using e3(3) e2(1,2,5) q1 n2 n3 by auto
  have Q3: "set (L3 k3) = set (L3 k) - {u \<in> set (L3 k). promoted 50 (totalTicks k) (threads k u)}"
    using e3(4) e2(1,2) q1 n3 by auto
  show ?thesis unfolding A using T Q1 Q2 Q3 by blast
qed

text \<open>
  Claim C4, as amended. When no thread is queued twice, one call of \<open>Aging\<close> treats a
  waiting thread as follows. If it has waited 1500 ticks or more, its priority grows by 10
  exactly once in this call (capped at 149 in L1, uncapped in L2 and L3), however many
  full periods of 1500 ticks it has waited, and its \<open>insert_ready_time\<close> advances by 1500
  once, so that the remainder is credited by later calls. An L2 thread whose new priority
  is at least 100 leaves L2 and enters L1; an L3 thread whose new priority is at least 50
  leaves L3 and enters L2; otherwise the thread stays in its queue. A thread that has
  waited less than 1500 ticks keeps its priority, its \<open>insert_ready_time\<close> and its queue.
\<close>

theorem Aging_one_increment_per_call:
  assumes "distinct (L1 k @ L2 k @ L3 k)"
  shows "let k' = Aging k; th = threads k t; th' = threads k' t;
             waited = totalTicks k - insert_ready_time th
         in (t \<in> set (L1 k) \<and> 1500 \<le> waited \<longrightarrow>
               priority th' = min (priority th + 10) 149
               \<and> insert_ready_time th' = insert_ready_time th + 1500
               \<and> t \<in> set (L1 k') \<and> t \<notin> set (L2 k') \<and> t \<notin> set (L3 k'))
          \<and> (t \<in> set (L2 k) \<and> 1500 \<le> waited \<longrightarrow>
               priority th' = priority th + 10
               \<and> insert_ready_time th' = insert_ready_time th + 1500
               \<and> t \<notin> set (L3 k')
               \<and> (if 100 \<le> priority th' then t \<in> set (L1 k') \<and> t \<notin> set (L2 k')
                   else t \<in> set (L2 k') \<and> t \<notin> set (L1 k')))
          \<and> (t \<in> set (L3 k) \<and> 1500 \<le> waited \<longrightarrow>
               priority th' = priority th + 10
               \<and> insert_ready_time th' = insert_ready_time th + 1500
               \<and> t \<notin> set (L1 k')
               \<and> (if 50 \<le> priority th' then t \<in> set (L2 k') \<and> t \<notin> set (L3 k')
                   else t \<in> set (L3 k') \<and> t \<notin> set (L2 k')))
          \<and> (t \<in> set (L1 k @ L2 k @ L3 k) \<and> waited < 1500 \<longrightarrow>
               priority th' = priority th
               \<and> insert_ready_time th' = insert_ready_time th
               \<and> (t \<in> set (L1 k') \<longleftrightarrow> t \<in> set (L1 k))
               \<and> (t \<in> set (L2 k') \<longleftrightarrow> t \<in> set (L2 k))
               \<and> (t \<in> set (L3 k') \<longleftrightarrow> t \<in> set (L3 k)))"
proof -
  have d: "set (L1 k) \<inter> set (L2 k) = {}" "set (L1 k) \<inter> set (L3 k) = {}"
    "set (L2 k) \<inter> set (L3 k) = {}"
    using assms by auto
  note S = Aging_summary [OF assms]
  have T: "threads (Aging k) t =
            (if t \<in> set (L1 k) then aged_saturating (totalTicks k) (threads k t)
             else if t \<in> set (L2 k) \<or> t \<in> set (L3 k) then aged_plain (totalTicks k) (threads k t)
             else threads k t)"
    using S by blast
  have Q1: "t \<in> set (L1 (Aging k)) \<longleftrightarrow>
      t \<in> set (L1 k) \<or> (t \<in> set (L2 k) \<and> promoted 100 (totalTicks k) (threads k t))"
    using S by auto
  have Q2: "t \<in> set (L2 (Aging k)) \<longleftrightarrow>
      (t \<in> set (L2 k) \<and> \<not> promoted 100 (totalTicks k) (threads k t))
      \<or> (t \<in> set (L3 k) \<and> promoted 50 (totalTicks k) (threads k t))"
    using S by auto
  have Q3: "t \<in> set (L3 (Aging k)) \<longleftrightarrow>
      t \<in> set (L3 k) \<and> \<not> promoted 50 (totalTicks k) (threads k t)"
    using S by auto
  show ?thesis
    unfolding Let_def Q1 Q2 Q3 T
    using d by (auto simp: aged_saturating_def aged_plain_def promoted_def)
qed


theorem Aging_one_increment_per_call_witness:
  "distinct (L1 kernel_aging @ L2 kernel_aging @ L3 kernel_aging)
   \<and> priority (threads (Aging kernel_aging) 1) = 149
   \<and> insert_ready_time (threads (Aging kernel_aging) 1) = 1500
   \<and> 1 \<in> set (L1 (Aging kernel_aging))
   \<and> priority (threads (Aging kernel_aging) 2) = 105
   \<and> 2 \<in> set (L1 (Aging kernel_aging)) \<and> 2 \<notin> set (L2 (Aging kernel_aging))
   \<and> priority (threads (Aging kernel_aging) 3) = 60
   \<and> 3 \<in> set (L2 (Aging kernel_aging))
   \<and> priority (threads (Aging kernel_aging) 4) = 55
   \<and> insert_ready_time (threads (Aging kernel_aging) 4) = 2500
   \<and> 4 \<in> set (L2 (Aging kernel_aging)) \<and> 4 \<notin> set (L3 (Aging kernel_aging))
   \<and> priority (threads (Aging kernel_aging) 5) = 20
   \<and> 5 \<in> set (L3 (Aging kernel_aging))"
proof -
  have h: "distinct (L1 kernel_aging @ L2 kernel_aging @ L3 kernel_aging)"
    by (simp add: kernel_aging_def)
  show ?thesis
    using h Aging_one_increment_per_call [OF h, of 1]
      Aging_one_increment_per_call [OF h, of 2]
      Aging_one_increment_per_call [OF h, of 3]
      Aging_one_increment_per_call [OF h, of 4]
      Aging_one_increment_per_call [OF h, of 5]
    by (simp add: kernel_aging_def mkThread_def Let_def)
qed

text \<open>
  The claim as it was written fails: a thread of priority 10 that has waited two full
  periods (3000 ticks) in L3 leaves the call with priority 20, not 30, and with its
  \<open>insert_ready_time\<close> advanced by 1500, not 3000.
\<close>

theorem Aging_not_ten_per_full_period:
  "5 \<in> set (L3 kernel_aging)
   \<and> totalTicks kernel_aging - insert_ready_time (threads kernel_aging 5) = 2 * 1500
   \<and> priority (threads kernel_aging 5) = 10
   \<and> priority (threads (Aging kernel_aging) 5) = 20
   \<and> priority (threads (Aging kernel_aging) 5) \<noteq> 10 + 2 * 10
   \<and> insert_ready_time (threads (Aging kernel_aging) 5) = 1500
   \<and> insert_ready_time (threads (Aging kernel_aging) 5)
        \<noteq> insert_ready_time (threads kernel_aging 5) + 2 * 1500"
  by (simp add: kernel_aging_def mkThread_def Aging_def AgingL1_item_def AgingL2_item_def
      AgingL3_item_def comp_L1_def comp_L2_def Let_def)

section \<open>Properties of the file system\<close>

subsection \<open>Allocation\<close>

lemma levels_ordered:
  "bytes_in_level1 g \<le> bytes_in_level2 g \<and> bytes_in_level2 g \<le> bytes_in_level3 g"
proof (cases "NumDirect g")
  case 0
  then show ?thesis by (simp add: bytes_in_level1_def bytes_in_level2_def bytes_in_level3_def)
next
  case (Suc n)
  have n: "0 \<le> int (SectorSize g)" "0 \<le> int n" by simp_all
  have l1: "0 \<le> bytes_in_level1 g" by (simp add: bytes_in_level1_def)
  have l2: "bytes_in_level2 g = bytes_in_level1 g + int n * bytes_in_level1 g"
    using Suc by (simp add: bytes_in_level2_def algebra_simps)
  have a: "bytes_in_level1 g \<le> bytes_in_level2 g"
    using l1 l2 by (simp add: mult_nonneg_nonneg)
  have l3: "bytes_in_level3 g = bytes_in_level2 g + int n * bytes_in_level2 g"
    using Suc by (simp add: bytes_in_level3_def algebra_simps)
  have "0 \<le> bytes_in_level2 g" using l1 a by simp
  then have "bytes_in_level2 g \<le> bytes_in_level3 g"
    using l3 by (simp add: mult_nonneg_nonneg)
  then show ?thesis using a by simp
qed

text \<open>What the check before the allocation does guarantee: a map with fewer clear sectors than
  the file has data sectors is refused, and nothing is changed.\<close>

lemma Allocate_precheck:
  assumes "0 < SectorSize g" "NumClear freeMap < divRoundUp fileSize (int (SectorSize g))"
  shows "Allocate g this freeMap fileSize fs =
           Inr (False,
                this\<lparr>numBytes := fileSize, numSectors := divRoundUp fileSize (int (SectorSize g))\<rparr>,
                freeMap, fs)"
  using assms by (subst Allocate.simps) (simp add: Let_def)

text \<open>
  Claim C6. The free map has 4 clear sectors and the file has 17 bytes, which on the small
  disk is 3 data sectors and 2 child headers: one sector short. The check before the
  allocation compares the free sectors with the 3 data sectors only and lets the request
  through; \<open>Allocate\<close> sets all 4 bits, leaves the second child without its data sector
  and returns true. With 3 clear sectors the check passes as well and the allocation runs
  into its own assertion. In neither case is false returned with the map untouched.
\<close>

theorem Allocate_true_without_room_for_headers:
  "NumClear freeMap_four_clear = 4
   \<and> divRoundUp 17 (int (SectorSize geometry_small)) = 3
   \<and> bytes_in_level1 geometry_small < 17
   \<and> (case Allocate geometry_small (NewFileHeader geometry_small) freeMap_four_clear 17 blank_disk of
         Inl e \<Rightarrow> False
       | Inr (ok, h, freeMap, fs) \<Rightarrow>
           ok \<and> NumClear freeMap = 0 \<and> dataSectors h = [12, 15]
           \<and> sectorHdr fs 12 = Some \<lparr>numBytes = 16, numSectors = 2, dataSectors = [13, 14]\<rparr>
           \<and> sectorHdr fs 15 = Some \<lparr>numBytes = 1, numSectors = 1, dataSectors = [-1, -1]\<rparr>)
   \<and> (case Allocate geometry_small (NewFileHeader geometry_small) freeMap_three_clear 17 blank_disk of
         Inl e \<Rightarrow> e = AssertionFailed
       | Inr r \<Rightarrow> False)"
  by code_simp

text \<open>
  The same with the stock constants: a file of 3841 bytes needs 31 data sectors and 2 child
  headers; with 32 clear sectors \<open>Allocate\<close> returns true, having set every bit and left the
  second child without its data sector.
\<close>

lemma Allocate_stock_one_sector_short:
  "(case Allocate geometry_stock (NewFileHeader geometry_stock)
           (replicate 8 True @ replicate 32 False) 3841 blank_disk of
      Inl e \<Rightarrow> False
    | Inr (ok, h, freeMap, fs) \<Rightarrow>
        ok \<and> NumClear freeMap = 0 \<and> take 2 (dataSectors h) = [8, 39]
        \<and> map_option numBytes (sectorHdr fs 39) = Some 1
        \<and> map_option (\<lambda>c. take 1 (dataSectors c)) (sectorHdr fs 39) = Some [-1])"
  by code_simp

subsection \<open>Translating a byte offset\<close>

text \<open>At a leaf header the slot of the sector that holds the byte is returned.\<close>

lemma ByteToSector_leaf:
  assumes "0 < SectorSize g" "numBytes this \<le> bytes_in_level1 g" "0 \<le> offset"
  shows "ByteToSector (Suc fuel) g fs this offset = slot this (offset div int (SectorSize g))"
proof -
  have "\<not> numBytes this > bytes_in_level1 g" "\<not> numBytes this > bytes_in_level2 g"
    "\<not> numBytes this > bytes_in_level3 g"
    using assms(2) levels_ordered [of g] by simp_all
  moreover have "c_div offset (int (SectorSize g)) = offset div int (SectorSize g)"
    using assms(1,3) by (cases "offset = 0") (simp_all add: c_div_def)
  ultimately show ?thesis using assms(1) by simp
qed

text \<open>At an indirect header no offset yields a sector, whatever the disk holds.\<close>

lemma ByteToSectorChild_no_value: "ByteToSectorChild child fs lvl h offset \<noteq> Inr s"
  by (simp add: ByteToSectorChild_def Let_def split: sum.splits)

lemma ByteToSector_indirect_no_value:
  assumes "bytes_in_level1 g < numBytes this"
  shows "ByteToSector fuel g fs this offset \<noteq> Inr s"
proof (cases fuel)
  case 0
  then show ?thesis by simp
next
  case (Suc n)
  then show ?thesis using assms by (simp add: ByteToSectorChild_no_value)
qed

text \<open>
  Claim C7. A file of 17 bytes created on the formatted small disk has an indirect header
  (sector 4) whose first child (sector 5) holds the data sectors 6 and 7. For offset 0 the
  claim asks for sector 6; the source calls the child and drops the result, so the call
  ends without a value. The same happens for every offset of an indirect header.
\<close>

theorem ByteToSector_indirect_returns_nothing:
  "(case Format geometry_small blank_disk of
      Inl e \<Rightarrow> False
    | Inr fs \<Rightarrow>
        (case Create geometry_small ''/a'' 17 fs of
           Inl e \<Rightarrow> False
         | Inr (created, fs1) \<Rightarrow>
             (case FetchFrom fs1 4 of
                Inl e \<Rightarrow> False
              | Inr h \<Rightarrow>
                  created \<and> numBytes h = 17 \<and> dataSectors h = [5, 8]
                  \<and> sectorHdr fs1 5 = Some \<lparr>numBytes = 16, numSectors = 2, dataSectors = [6, 7]\<rparr>
                  \<and> ByteToSector 5 geometry_small fs1 h 0 = Inl NoReturnValue
                  \<and> ByteToSector 5 geometry_small fs1 h 0 \<noteq> Inr 6
                  \<and> ByteToSector 5 geometry_small fs1 h 16 = Inl NoReturnValue)))"
  by code_simp

subsection \<open>Counting headers\<close>

text \<open>A file without indirection has one header.\<close>

lemma CountHeader_leaf:
  assumes "numBytes this \<le> bytes_in_level1 g"
  shows "CountHeader (Suc fuel) g fs this = Inr 1"
proof -
  have "\<not> numBytes this > bytes_in_level1 g" "\<not> numBytes this > bytes_in_level2 g"
    "\<not> numBytes this > bytes_in_level3 g"
    using assms levels_ordered [of g] by simp_all
  then show ?thesis by (simp add: Let_def)
qed

text \<open>
  Claim C9. The same file has three header sectors: its own (sector 4) and those of its two
  children (sectors 5 and 8). \<open>CountHeader\<close> returns 2: an indirect header adds up its
  children and does not count itself.
\<close>

theorem CountHeader_leaves_out_indirect_headers:
  "(case Format geometry_small blank_disk of
      Inl e \<Rightarrow> False
    | Inr fs \<Rightarrow>
        (case Create geometry_small ''/a'' 17 fs of
           Inl e \<Rightarrow> False
         | Inr (created, fs1) \<Rightarrow>
             (case FetchFrom fs1 4 of
                Inl e \<Rightarrow> False
              | Inr h \<Rightarrow>
                  created \<and> numBytes h = 17 \<and> dataSectors h = [5, 8]
                  \<and> sectorHdr fs1 5 \<noteq> None \<and> sectorHdr fs1 8 \<noteq> None
                  \<and> CountHeader 5 geometry_small fs1 h = Inr 2
                  \<and> TotalHeaderSectors 5 geometry_small fs1 h = Inr 3)))"
  by code_simp

subsection \<open>Creating and removing a file\<close>

text \<open>
  Claim C8. On the formatted small disk 4 sectors are in use. Creating \<open>/a\<close> with 17 bytes
  succeeds and brings the count to 10; removing it succeeds and brings the count to 6, not
  back to 4: the sectors 5 and 8 of the two child headers stay marked.
\<close>

theorem Create_Remove_leaks_indirect_headers:
  "(case Format geometry_small blank_disk of
      Inl e \<Rightarrow> False
    | Inr fs \<Rightarrow>
        (case Create geometry_small ''/a'' 17 fs of
           Inl e \<Rightarrow> False
         | Inr (created, fs1) \<Rightarrow>
             (case Remove 5 geometry_small ''/a'' fs1 of
                Inl e \<Rightarrow> False
              | Inr (removed, fs2) \<Rightarrow>
                  created \<and> removed
                  \<and> NumSet (freeMapFile fs) = 4
                  \<and> NumSet (freeMapFile fs1) = 10
                  \<and> NumSet (freeMapFile fs2) = 6
                  \<and> Test (freeMapFile fs2) 5 = Inr True
                  \<and> Test (freeMapFile fs2) 8 = Inr True
                  \<and> dirTable fs2 1 = Some
                       [\<lparr>inUse = False, isdir = False, name = ''a'', sector = 4\<rparr>,
                        \<lparr>inUse = False, isdir = False, name = [], sector = 0\<rparr>])))"
  by code_simp

text \<open>
  The same with the stock constants and a file of 3841 bytes: 13 sectors are in use after
  formatting, 47 after the creation, 15 after the removal.
\<close>

lemma Create_Remove_stock_leak:
  "(case Format geometry_stock blank_disk of
      Inl e \<Rightarrow> False
    | Inr fs \<Rightarrow>
        (case Create geometry_stock ''/a'' 3841 fs of
           Inl e \<Rightarrow> False
         | Inr (created, fs1) \<Rightarrow>
             (case Remove 5 geometry_stock ''/a'' fs1 of
                Inl e \<Rightarrow> False
              | Inr (removed, fs2) \<Rightarrow>
                  created \<and> removed
                  \<and> NumSet (freeMapFile fs) = 13
                  \<and> NumSet (freeMapFile fs1) = 47
                  \<and> NumSet (freeMapFile fs2) = 15)))"
  by code_simp

subsection \<open>Removing a directory\<close>

text \<open>
  When the path loop of \<open>RemoveDir\<close> stops at a component that names no directory, the
  sector variable holds the negative result of that lookup and the header is fetched from
  there. No such sector is on the disk, so the call ends at the fetch, whatever the fuel:
  nothing is deallocated, cleared or written back, and nothing is returned.
\<close>

lemma RemoveDir_unresolved_path:
  assumes "Directory_FetchFrom fs DirectorySector = Inr rootDir"
    and "ResolvePathDir g fs rootDir None DirectorySector None None (strtok [] path)
           = Inr (dir, prev, Some sec, pre)"
    and "sectorHdr fs sec = None"
  shows "RemoveDir fuel g path fs = Inl BadSector"
  using assms by (simp add: RemoveDir_def FetchFrom_def)

lemma RemoveDir_first_component_missing:
  assumes "Directory_FetchFrom fs DirectorySector = Inr rootDir"
    and "strtok [] path = token # rest"
    and "FindDir g rootDir (Some token) = Inr sec" and "sec < 0"
    and "sectorHdr fs sec = None"
  shows "RemoveDir fuel g path fs = Inl BadSector"
  using assms by (simp add: RemoveDir_def FetchFrom_def)

text \<open>On the same input \<open>Remove\<close> looks at the sector first and returns false, the disk unchanged.\<close>

lemma Remove_first_component_missing:
  assumes "Directory_FetchFrom fs DirectorySector = Inr rootDir"
    and "strtok [] path = token # rest"
    and "FindDir g rootDir (Some token) = Inr sec" and "sec < 0"
    and "Find g rootDir (Some token) = Inr (-1)"
  shows "Remove fuel g path fs = Inr (False, fs)"
  using assms by (simp add: Remove_def)

text \<open>
  At the end of a path whose every component names a directory the token is \<^verbatim>\<open>NULL\<close>.
  \<open>Remove\<close> looks it up all the same: in a directory with no entry in use no name is
  compared and \<open>Remove\<close> returns false (\<open>/d\<close> on the disk with the empty directory \<open>/d\<close>);
  in a directory with an entry in use the comparison reads through \<^verbatim>\<open>NULL\<close> (\<open>/\<close> on that
  disk, whose root holds \<open>d\<close>).
\<close>

lemma Remove_end_of_path:
  "(case Remove 5 geometry_small ''/d'' disk_with_dir of
      Inl e \<Rightarrow> False
    | Inr (b, fs') \<Rightarrow> \<not> b \<and> freeMapFile fs' = freeMapFile disk_with_dir)
   \<and> (case Remove 5 geometry_small ''/'' disk_with_dir of
         Inl e \<Rightarrow> e = NullPointer
       | Inr r \<Rightarrow> False)
   \<and> (case Remove 5 geometry_small ''/'' disk_formatted of
         Inl e \<Rightarrow> False
       | Inr (b, fs') \<Rightarrow> \<not> b)"
  by code_simp

text \<open>
  Claim C10. On the formatted small disk the root directory is empty, so the lookup of \<open>x\<close>
  gives \<open>-1\<close>, and the disk has no sector \<open>-1\<close>. The claim says that \<open>RemoveDir\<close> of \<open>/x\<close>
  fetches a header from the last sector computed, deallocates it, writes back and returns
  true. \<open>RemoveDir\<close> passes \<open>-1\<close> to the fetch and ends there; it returns nothing. The
  same happens for \<open>/d/x\<close> on the disk that has the directory \<open>/d\<close>. \<open>Remove\<close>, which
  has the test \<^verbatim>\<open>sector == -1\<close> that \<open>RemoveDir\<close> lacks, returns false for \<open>/x\<close> and leaves
  the disk as it was. For the directory \<open>/d\<close> that does exist, \<open>RemoveDir\<close> returns true
  and frees its two sectors.
\<close>

theorem RemoveDir_missing_directory_fetches_no_sector:
  "dirTable disk_formatted DirectorySector
      = Some [\<lparr>inUse = False, isdir = False, name = [], sector = 0\<rparr>,
              \<lparr>inUse = False, isdir = False, name = [], sector = 0\<rparr>]
   \<and> FindDir geometry_small [\<lparr>inUse = False, isdir = False, name = [], sector = 0\<rparr>,
                             \<lparr>inUse = False, isdir = False, name = [], sector = 0\<rparr>] (Some ''x'')
      = Inr (-1)
   \<and> sectorHdr disk_formatted (-1) = None
   \<and> (case RemoveDir 5 geometry_small ''/x'' disk_formatted of
         Inl e \<Rightarrow> e = BadSector
       | Inr r \<Rightarrow> False)
   \<and> (case RemoveDir 5 geometry_small ''/d/x'' disk_with_dir of
         Inl e \<Rightarrow> e = BadSector
       | Inr r \<Rightarrow> False)
   \<and> (case Remove 5 geometry_small ''/x'' disk_formatted of
         Inl e \<Rightarrow> False
       | Inr (b, fs') \<Rightarrow> \<not> b \<and> freeMapFile fs' = freeMapFile disk_formatted)
   \<and> (case RemoveDir 5 geometry_small ''/d'' disk_with_dir of
         Inl e \<Rightarrow> False
       | Inr (b, fs') \<Rightarrow>
           b \<and> NumSet (freeMapFile disk_with_dir) = 6 \<and> NumSet (freeMapFile fs') = 4
           \<and> dirTable fs' DirectorySector
               = Some [\<lparr>inUse = False, isdir = False, name = ''d'', sector = 4\<rparr>,
                       \<lparr>inUse = False, isdir = False, name = [], sector = 0\<rparr>])"
  by code_simp

end
